theory Spec2Isabelle
  imports Main
begin

section \<open>The deployment orchestrator of lambda/deployment-orchestrator/index.js\<close>

text \<open>
  The orchestrator is a chain of awaited calls to service clients (S3, Lambda, ECS,
  CodePipeline) around a little pure code. The embedding keeps the functions of the source
  under their names. A call to a service is an entry of a trace; what the service answers
  is given by a \<open>world\<close>, which may let every answer depend on all calls made before. A
  function of the source becomes a function from the history (the calls made so far) to
  its outcome (\<open>Inl\<close> an exception, \<open>Inr\<close> a value) and the calls it made itself.
  \<^verbatim>\<open>console.log\<close> and \<^verbatim>\<open>console.error\<close> are left out.

  The event is typed: a job, when there is one, has an id and data; its input artifacts
  are a list, its output artifacts a list or missing, every artifact has a name and an S3
  location, and the action configuration maps strings to strings. Where the source reads a
  field that may be missing (\<^verbatim>\<open>event['CodePipeline.job']\<close>,
  \<^verbatim>\<open>actionConfiguration.configuration\<close>, \<^verbatim>\<open>outputArtifacts\<close>, a key of the configuration,
  a field of a service's answer), the field is an \<open>option\<close>.
\<close>

subsection \<open>JavaScript values\<close>

text \<open>An exception object: only its class and its \<^verbatim>\<open>message\<close> are ever read.\<close>

datatype js_error = Error string | TypeError string

fun message :: "js_error \<Rightarrow> string" where
  "message (Error m) = m"
| "message (TypeError m) = m"

text \<open>
  \<^verbatim>\<open>a || d\<close> for a string or \<^verbatim>\<open>undefined\<close> on the left: \<^verbatim>\<open>undefined\<close> and the empty
  string are falsy.
\<close>

definition js_or :: "string option \<Rightarrow> string \<Rightarrow> string" where
  "js_or a d = (case a of None \<Rightarrow> d | Some v \<Rightarrow> if v = [] then d else v)"

text \<open>A string or \<^verbatim>\<open>undefined\<close> inside a template literal.\<close>

definition template :: "string option \<Rightarrow> string" where
  "template a = (case a of None \<Rightarrow> ''undefined'' | Some v \<Rightarrow> v)"

text \<open>
  A non-negative integer inside a template literal: its decimal digits. (JavaScript
  switches to exponent notation from \<open>10\<^sup>2\<^sup>1\<close> on; \<^verbatim>\<open>Date.now()\<close> stays below
  \<open>8.64 \<times> 10\<^sup>1\<^sup>5\<close>.)
\<close>

definition digit_char :: "nat \<Rightarrow> char" where
  "digit_char d = ''0123456789'' ! d"

fun number_toString :: "nat \<Rightarrow> string" where
  "number_toString n =
     (if n < 10 then [digit_char n]
      else number_toString (n div 10) @ [digit_char (n mod 10)])"

declare number_toString.simps [simp del]

subsection \<open>The job event\<close>

record s3_location =
  bucketName :: string
  objectKey :: string

text \<open>An input or output artifact; \<open>s3Location\<close> is \<^verbatim>\<open>artifact.location.s3Location\<close>.\<close>

record artifact =
  name :: string
  s3Location :: s3_location

record action_configuration =
  configuration :: "(string \<rightharpoonup> string) option"

record job_data =
  inputArtifacts :: "artifact list"
  outputArtifacts :: "artifact list option"
  actionConfiguration :: "action_configuration option"

text \<open>The job; \<open>job_id\<close> and \<open>job_data\<close> are its fields \<^verbatim>\<open>id\<close> and \<^verbatim>\<open>data\<close>.\<close>

record job =
  job_id :: string
  job_data :: job_data

text \<open>The event; \<open>CodePipeline_job\<close> is \<^verbatim>\<open>event['CodePipeline.job']\<close>, which may be missing.\<close>

record event =
  CodePipeline_job :: "job option"

subsection \<open>Artifacts, configuration, results\<close>

record artifact_payload =
  data :: string
  metadata :: "(string \<times> string) list"
  contentType :: "string option"

text \<open>
  The object \<^verbatim>\<open>artifacts\<close> that \<^verbatim>\<open>processArtifacts\<close> builds from \<^verbatim>\<open>{}\<close>: its own properties,
  and its prototype when that is a payload (\<open>None\<close> stands for \<^verbatim>\<open>Object.prototype\<close>).
\<close>

record artifacts =
  own :: "string \<rightharpoonup> artifact_payload"
  prototype :: "artifact_payload option"

text \<open>
  A configuration object, as the map of its own properties. The code reads it at
  \<^verbatim>\<open>deploymentType\<close>, \<^verbatim>\<open>targetFunction\<close>, \<^verbatim>\<open>environment\<close>, \<^verbatim>\<open>serviceName\<close>, \<^verbatim>\<open>clusterName\<close>
  and \<^verbatim>\<open>bucketName\<close>; \<^verbatim>\<open>Object.prototype\<close> has no property of these names, so each read is
  a read of the own property.
\<close>

type_synonym config = "string \<rightharpoonup> string"

text \<open>The object a backend returns, by its \<^verbatim>\<open>type\<close> tag.\<close>

datatype deployment_result =
    LambdaResult (functionArn: "string option") (lambda_version: "string option")
      (lastModified: "string option")
  | EcsResult (serviceArn: "string option") (taskDefinition: "string option")
  | S3Result (location: "string option") (etag: "string option")

text \<open>\<^verbatim>\<open>deploymentResult.version\<close>: only the Lambda result has the field.\<close>

fun version :: "deployment_result \<Rightarrow> string option" where
  "version (LambdaResult arn v lm) = v"
| "version (EcsResult arn td) = None"
| "version (S3Result loc tag) = None"

text \<open>
  The summary written to an output artifact, before \<^verbatim>\<open>JSON.stringify\<close>. A timestamp is the
  clock's reading in milliseconds; \<^verbatim>\<open>toISOString\<close> is not modelled.
\<close>

record summary =
  deploymentResult :: deployment_result
  timestamp :: nat
  status :: string

record output_variables =
  deploymentStatus :: string
  deploymentTime :: nat
  deployedVersion :: string

text \<open>What the handler returns; the fields of \<open>body\<close> before \<^verbatim>\<open>JSON.stringify\<close>.\<close>

record handler_response =
  statusCode :: nat
  body_message :: string
  body_jobId :: string
  body_result :: deployment_result

subsection \<open>Service calls and the world\<close>

datatype call =
    DateNow
  | GetObject string string
  | PutObject string string summary
  | Upload "string option" string string string
  | UpdateFunctionCode "string option" string
  | WaitFor string "string option"
  | UpdateFunctionConfiguration "string option" "string option" nat
  | UpdateService string "string option" bool
  | PutJobSuccessResult string output_variables
  | PutJobFailureResult string string

text \<open>A call and whether its promise resolved (\<open>True\<close>) or rejected (\<open>False\<close>).\<close>

type_synonym trace = "(call \<times> bool) list"

record get_object_output =
  Body :: string
  Metadata :: "(string \<times> string) list"
  ContentType :: "string option"

record function_configuration =
  FunctionArn :: "string option"
  Version :: "string option"
  LastModified :: "string option"

record ecs_service =
  service_serviceArn :: "string option"
  service_taskDefinition :: "string option"

record update_service_output =
  service :: "ecs_service option"

record upload_output =
  Location :: "string option"
  ETag :: "string option"

text \<open>
  The world: the clock and, for each operation of a service client, the outcome of the
  call, given the history and the call with its arguments.
\<close>

record world =
  dateNow :: "trace \<Rightarrow> nat"
  s3_getObject :: "trace \<Rightarrow> call \<Rightarrow> js_error + get_object_output"
  s3_putObject :: "trace \<Rightarrow> call \<Rightarrow> js_error + unit"
  s3_upload :: "trace \<Rightarrow> call \<Rightarrow> js_error + upload_output"
  lambda_updateFunctionCode :: "trace \<Rightarrow> call \<Rightarrow> js_error + function_configuration"
  lambda_waitFor :: "trace \<Rightarrow> call \<Rightarrow> js_error + unit"
  lambda_updateFunctionConfiguration :: "trace \<Rightarrow> call \<Rightarrow> js_error + unit"
  ecs_updateService :: "trace \<Rightarrow> call \<Rightarrow> js_error + update_service_output"
  codepipeline_putJobSuccessResult :: "trace \<Rightarrow> call \<Rightarrow> js_error + unit"
  codepipeline_putJobFailureResult :: "trace \<Rightarrow> call \<Rightarrow> js_error + unit"

subsection \<open>Asynchronous code\<close>

text \<open>
  An \<^verbatim>\<open>async\<close> computation: from the history to the outcome and the calls made, in order.
\<close>

type_synonym 'a io = "trace \<Rightarrow> (js_error + 'a) \<times> trace"

definition return_io :: "'a \<Rightarrow> 'a io" where
  "return_io x h = (Inr x, [])"

definition throw_io :: "js_error \<Rightarrow> 'a io" where
  "throw_io e h = (Inl e, [])"

definition bind_io :: "'a io \<Rightarrow> ('a \<Rightarrow> 'b io) \<Rightarrow> 'b io" where
  "bind_io m f h =
     (case m h of
        (Inl e, evs) \<Rightarrow> (Inl e, evs)
      | (Inr x, evs) \<Rightarrow> (case f x (h @ evs) of (r, evs') \<Rightarrow> (r, evs @ evs')))"

text \<open>\<^verbatim>\<open>try { m } catch (error) { c error }\<close>\<close>

definition try_catch :: "'a io \<Rightarrow> (js_error \<Rightarrow> 'a io) \<Rightarrow> 'a io" where
  "try_catch m c h =
     (case m h of
        (Inl e, evs) \<Rightarrow> (case c e (h @ evs) of (r, evs') \<Rightarrow> (r, evs @ evs'))
      | (Inr x, evs) \<Rightarrow> (Inr x, evs))"

text \<open>\<^verbatim>\<open>await client.operation(params).promise()\<close>\<close>

definition await :: "(trace \<Rightarrow> call \<Rightarrow> js_error + 'a) \<Rightarrow> call \<Rightarrow> 'a io" where
  "await api c h = (let r = api h c in (r, [(c, \<not> isl r)]))"

text \<open>\<^verbatim>\<open>Date.now()\<close> and \<^verbatim>\<open>new Date()\<close>\<close>

definition date_now :: "world \<Rightarrow> nat io" where
  "date_now w h = (Inr (dateNow w h), [(DateNow, True)])"

subsection \<open>getDeploymentConfig\<close>

text \<open>
  \<^verbatim>\<open>Object.assign(target, source)\<close> for objects whose values are strings: every own key of
  the source is assigned to the target. Assigning to the key \<^verbatim>\<open>__proto__\<close> calls the setter
  that the target inherits from \<^verbatim>\<open>Object.prototype\<close>, which ignores a string; every other key
  becomes an own property of the target.
\<close>

definition object_assign :: "config \<Rightarrow> config \<Rightarrow> config" where
  "object_assign target source = target ++ (source(''__proto__'' := None))"

text \<open>\<open>env\<close> is \<^verbatim>\<open>process.env\<close>. The function is \<^verbatim>\<open>async\<close> but awaits and throws nothing.\<close>

definition getDeploymentConfig :: "(string \<rightharpoonup> string) \<Rightarrow> job_data \<Rightarrow> config" where
  "getDeploymentConfig env jobData =
     (let config =
        [''deploymentType'' \<mapsto> js_or (env ''DEPLOYMENT_TYPE'') ''lambda'',
         ''targetFunction'' \<mapsto> js_or (env ''TARGET_FUNCTION_NAME'') ''lambdadeploy-app'',
         ''environment'' \<mapsto> js_or (env ''ENVIRONMENT'') ''development'',
         ''region'' \<mapsto> js_or (env ''AWS_REGION'') ''us-east-1'']
      in case actionConfiguration jobData of
           None \<Rightarrow> config
         | Some ac \<Rightarrow>
             (case configuration ac of
                None \<Rightarrow> config
              | Some actionConfig \<Rightarrow> object_assign config actionConfig))"

subsection \<open>processArtifacts\<close>

text \<open>
  \<^verbatim>\<open>artifacts[n] = p\<close> for a payload object \<open>p\<close>. The key \<^verbatim>\<open>__proto__\<close> is the accessor that
  \<^verbatim>\<open>artifacts\<close> inherits from \<^verbatim>\<open>Object.prototype\<close>: its setter makes \<open>p\<close> the prototype of
  \<^verbatim>\<open>artifacts\<close> and adds no property. Under any other key the payload becomes an own
  property, replacing an earlier one (all other properties of a payload and of
  \<^verbatim>\<open>Object.prototype\<close> are writable data properties).
\<close>

definition assign_artifact :: "artifacts \<Rightarrow> string \<Rightarrow> artifact_payload \<Rightarrow> artifacts" where
  "assign_artifact artifacts n p =
     (if n = ''__proto__'' then artifacts\<lparr>prototype := Some p\<rparr>
      else artifacts\<lparr>own := (own artifacts)(n \<mapsto> p)\<rparr>)"

text \<open>The loop over the input artifacts.\<close>

fun processArtifacts_loop :: "world \<Rightarrow> artifact list \<Rightarrow> artifacts \<Rightarrow> artifacts io" where
  "processArtifacts_loop w [] artifacts = return_io artifacts"
| "processArtifacts_loop w (a # rest) artifacts =
     bind_io
       (await (s3_getObject w)
          (GetObject (bucketName (s3Location a)) (objectKey (s3Location a))))
       (\<lambda>artifactData.
          processArtifacts_loop w rest
            (assign_artifact artifacts (name a)
               \<lparr>data = Body artifactData, metadata = Metadata artifactData,
                contentType = ContentType artifactData\<rparr>))"

definition processArtifacts :: "world \<Rightarrow> artifact list \<Rightarrow> artifacts io" where
  "processArtifacts w inputs =
     processArtifacts_loop w inputs \<lparr>own = Map.empty, prototype = None\<rparr>"

subsection \<open>The backends\<close>

text \<open>
  \<^verbatim>\<open>artifacts['BuildArtifact'] || artifacts['SourceOutput']\<close>: a payload is an object, hence
  truthy. Neither a payload (with its properties \<^verbatim>\<open>data\<close>, \<^verbatim>\<open>metadata\<close>, \<^verbatim>\<open>contentType\<close>) nor
  \<^verbatim>\<open>Object.prototype\<close> has a property of one of the two names, so whatever the prototype of
  \<^verbatim>\<open>artifacts\<close> is, each read is a read of the own property.
\<close>

definition appArtifact :: "artifacts \<Rightarrow> artifact_payload option" where
  "appArtifact artifacts =
     (case own artifacts ''BuildArtifact'' of
        Some p \<Rightarrow> Some p
      | None \<Rightarrow> own artifacts ''SourceOutput'')"

definition deployToLambda :: "world \<Rightarrow> config \<Rightarrow> artifacts \<Rightarrow> deployment_result io" where
  "deployToLambda w config artifacts =
     (case appArtifact artifacts of
        None \<Rightarrow> throw_io (Error ''No application artifact found for Lambda deployment'')
      | Some app \<Rightarrow>
          try_catch
            (bind_io
               (await (lambda_updateFunctionCode w)
                  (UpdateFunctionCode (config ''targetFunction'') (data app)))
               (\<lambda>updateResult.
                  bind_io
                    (await (lambda_waitFor w)
                       (WaitFor ''functionUpdated'' (config ''targetFunction'')))
                    (\<lambda>_.
                       bind_io
                         (if config ''environment'' \<noteq> Some ''production''
                          then bind_io (date_now w)
                                 (\<lambda>t. await (lambda_updateFunctionConfiguration w)
                                    (UpdateFunctionConfiguration (config ''targetFunction'')
                                       (config ''environment'') t))
                          else return_io ())
                         (\<lambda>_.
                            return_io
                              (LambdaResult (FunctionArn updateResult) (Version updateResult)
                                 (LastModified updateResult))))))
            (\<lambda>error. throw_io (Error (''Lambda deployment failed: '' @ message error))))"

definition deployToECS :: "world \<Rightarrow> config \<Rightarrow> artifacts \<Rightarrow> deployment_result io" where
  "deployToECS w config artifacts =
     try_catch
       (bind_io
          (await (ecs_updateService w)
             (UpdateService (js_or (config ''clusterName'') ''default'')
                (config ''serviceName'') True))
          (\<lambda>updateResult.
             case service updateResult of
               None \<Rightarrow>
                 throw_io
                   (TypeError ''Cannot read properties of undefined (reading 'serviceArn')'')
             | Some s \<Rightarrow>
                 return_io (EcsResult (service_serviceArn s) (service_taskDefinition s))))
       (\<lambda>error. throw_io (Error (''ECS deployment failed: '' @ message error)))"

definition s3_key :: "nat \<Rightarrow> string" where
  "s3_key now = ''deployments/'' @ number_toString now @ ''/app.zip''"

definition deployToS3 :: "world \<Rightarrow> config \<Rightarrow> artifacts \<Rightarrow> deployment_result io" where
  "deployToS3 w config artifacts =
     try_catch
       (case appArtifact artifacts of
          None \<Rightarrow> throw_io (Error ''No application artifact found for S3 deployment'')
        | Some app \<Rightarrow>
            bind_io (date_now w)
              (\<lambda>now.
                 bind_io
                   (await (s3_upload w)
                      (Upload (config ''bucketName'') (s3_key now) (data app)
                         ''application/zip''))
                   (\<lambda>uploadResult.
                      return_io (S3Result (Location uploadResult) (ETag uploadResult)))))
       (\<lambda>error. throw_io (Error (''S3 deployment failed: '' @ message error)))"

subsection \<open>executeDeployment\<close>

definition executeDeployment :: "world \<Rightarrow> config \<Rightarrow> artifacts \<Rightarrow> deployment_result io" where
  "executeDeployment w config artifacts =
     (if config ''deploymentType'' = Some ''lambda'' then deployToLambda w config artifacts
      else if config ''deploymentType'' = Some ''ecs'' then deployToECS w config artifacts
      else if config ''deploymentType'' = Some ''s3'' then deployToS3 w config artifacts
      else throw_io
             (Error (''Unsupported deployment type: '' @ template (config ''deploymentType''))))"

subsection \<open>updateOutputArtifacts\<close>

fun updateOutputArtifacts :: "world \<Rightarrow> artifact list \<Rightarrow> deployment_result \<Rightarrow> unit io" where
  "updateOutputArtifacts w [] result = return_io ()"
| "updateOutputArtifacts w (a # rest) result =
     bind_io (date_now w)
       (\<lambda>t.
          bind_io
            (await (s3_putObject w)
               (PutObject (bucketName (s3Location a)) (objectKey (s3Location a))
                  \<lparr>deploymentResult = result, timestamp = t, status = ''SUCCESS''\<rparr>))
            (\<lambda>_. updateOutputArtifacts w rest result))"

subsection \<open>The handler\<close>

text \<open>The body of the handler's \<^verbatim>\<open>try\<close> block.\<close>

definition handler_try :: "world \<Rightarrow> (string \<rightharpoonup> string) \<Rightarrow> event \<Rightarrow> handler_response io" where
  "handler_try w env event =
     (case CodePipeline_job event of
        None \<Rightarrow> throw_io (TypeError ''Cannot read properties of undefined (reading 'id')'')
      | Some j \<Rightarrow>
          (let jobId = job_id j;
               jobData = job_data j;
               config = getDeploymentConfig env jobData
           in bind_io (processArtifacts w (inputArtifacts jobData))
                (\<lambda>artifacts.
                   bind_io (executeDeployment w config artifacts)
                     (\<lambda>result.
                        bind_io
                          (case outputArtifacts jobData of
                             None \<Rightarrow> return_io ()
                           | Some outs \<Rightarrow>
                               if length outs > 0 then updateOutputArtifacts w outs result
                               else return_io ())
                          (\<lambda>_.
                             bind_io (date_now w)
                               (\<lambda>t.
                                  bind_io
                                    (await (codepipeline_putJobSuccessResult w)
                                       (PutJobSuccessResult jobId
                                          \<lparr>deploymentStatus = ''SUCCESS'',
                                           deploymentTime = t,
                                           deployedVersion =
                                             js_or (version result) ''unknown''\<rparr>))
                                    (\<lambda>_.
                                       return_io
                                         \<lparr>statusCode = 200,
                                          body_message =
                                            ''Deployment orchestrated successfully'',
                                          body_jobId = jobId,
                                          body_result = result\<rparr>)))))))"

definition handler :: "world \<Rightarrow> (string \<rightharpoonup> string) \<Rightarrow> event \<Rightarrow> handler_response io" where
  "handler w env event =
     try_catch (handler_try w env event)
       (\<lambda>error.
          bind_io
            (case CodePipeline_job event of
               Some j \<Rightarrow>
                 await (codepipeline_putJobFailureResult w)
                   (PutJobFailureResult (job_id j) (message error))
             | None \<Rightarrow> return_io ())
            (\<lambda>_. throw_io error))"

subsection \<open>Reading a trace\<close>

text \<open>The two terminal report calls, and the calls of a trace that are reports.\<close>

fun is_report :: "call \<Rightarrow> bool" where
  "is_report (PutJobSuccessResult jobId vars) = True"
| "is_report (PutJobFailureResult jobId msg) = True"
| "is_report c = False"

definition reports :: "trace \<Rightarrow> trace" where
  "reports evs = filter (\<lambda>ev. is_report (fst ev)) evs"

fun is_putObject :: "call \<Rightarrow> bool" where
  "is_putObject (PutObject b k s) = True"
| "is_putObject c = False"

definition putObjects :: "trace \<Rightarrow> trace" where
  "putObjects evs = filter (\<lambda>ev. is_putObject (fst ev)) evs"

fun is_getObject :: "call \<Rightarrow> bool" where
  "is_getObject (GetObject b k) = True"
| "is_getObject c = False"

definition getObjects :: "trace \<Rightarrow> trace" where
  "getObjects evs = filter (\<lambda>ev. is_getObject (fst ev)) evs"

text \<open>The object-store keys of the uploads of a trace.\<close>

fun upload_key :: "call \<times> bool \<Rightarrow> string list" where
  "upload_key (Upload b k d ct, ok) = [k]"
| "upload_key ev = []"

definition upload_keys :: "trace \<Rightarrow> string list" where
  "upload_keys evs = concat (map upload_key evs)"

text \<open>The fetch of an input artifact, and the write of a summary to an output artifact.\<close>

definition fetch :: "artifact \<Rightarrow> call" where
  "fetch a = GetObject (bucketName (s3Location a)) (objectKey (s3Location a))"

definition summary_write :: "deployment_result \<Rightarrow> artifact \<Rightarrow> nat \<Rightarrow> call" where
  "summary_write result a t =
     PutObject (bucketName (s3Location a)) (objectKey (s3Location a))
       \<lparr>deploymentResult = result, timestamp = t, status = ''SUCCESS''\<rparr>"

text \<open>The output artifacts a job declares.\<close>

definition declared :: "job_data \<Rightarrow> artifact list" where
  "declared jobData = (case outputArtifacts jobData of None \<Rightarrow> [] | Some outs \<Rightarrow> outs)"

fun is_configurationUpdate :: "call \<Rightarrow> bool" where
  "is_configurationUpdate (UpdateFunctionConfiguration f e t) = True"
| "is_configurationUpdate c = False"

text \<open>
  A computation propagates rejections at a history when it cannot return normally there
  after a call of its own was rejected.
\<close>

definition propagates :: "'a io \<Rightarrow> trace \<Rightarrow> bool" where
  "propagates m h = (isl (fst (m h)) \<or> list_all snd (snd (m h)))"

subsection \<open>The configuration layers as the specification names them\<close>

text \<open>
  The specification describes the resolved configuration as an overlay of three layers:
  built-in defaults, the process environment, and the job's action configuration. The
  layers below are read off \<^verbatim>\<open>getDeploymentConfig\<close>; \<open>overlay\<close> is the specification's
  rule that a later layer overrides an earlier one key by key.
\<close>

definition default_layer :: config where
  "default_layer =
     [''deploymentType'' \<mapsto> ''lambda'',
      ''targetFunction'' \<mapsto> ''lambdadeploy-app'',
      ''environment'' \<mapsto> ''development'',
      ''region'' \<mapsto> ''us-east-1'']"

definition environment_layer :: "(string \<rightharpoonup> string) \<Rightarrow> config" where
  "environment_layer env =
     (\<lambda>k. if k = ''deploymentType'' then env ''DEPLOYMENT_TYPE''
          else if k = ''targetFunction'' then env ''TARGET_FUNCTION_NAME''
          else if k = ''environment'' then env ''ENVIRONMENT''
          else if k = ''region'' then env ''AWS_REGION''
          else None)"

definition action_layer :: "job_data \<Rightarrow> config" where
  "action_layer jobData =
     (case actionConfiguration jobData of
        None \<Rightarrow> Map.empty
      | Some ac \<Rightarrow> (case configuration ac of None \<Rightarrow> Map.empty | Some m \<Rightarrow> m))"

definition overlay :: "config \<Rightarrow> config \<Rightarrow> config \<Rightarrow> config" where
  "overlay defaults environment action = defaults ++ environment ++ action"

text \<open>A layer without its entries whose value is the empty string.\<close>

definition nonempty :: "config \<Rightarrow> config" where
  "nonempty layer =
     (\<lambda>k. case layer k of None \<Rightarrow> None | Some v \<Rightarrow> if v = [] then None else Some v)"

subsection \<open>Example worlds and job events\<close>

text \<open>A world in which every call resolves and the clock stands still.\<close>

definition world_ok :: world where
  "world_ok =
     \<lparr>dateNow = (\<lambda>h. 1700000000000),
      s3_getObject =
        (\<lambda>h c. Inr \<lparr>Body = ''zip-bytes'', Metadata = [],
                     ContentType = Some ''application/zip''\<rparr>),
      s3_putObject = (\<lambda>h c. Inr ()),
      s3_upload =
        (\<lambda>h c. Inr \<lparr>Location = Some ''https://site-bucket/app.zip'', ETag = Some ''etag-1''\<rparr>),
      lambda_updateFunctionCode =
        (\<lambda>h c. Inr \<lparr>FunctionArn = Some ''arn:aws:lambda:fn'', Version = Some ''7'',
                     LastModified = Some ''2023-11-14''\<rparr>),
      lambda_waitFor = (\<lambda>h c. Inr ()),
      lambda_updateFunctionConfiguration = (\<lambda>h c. Inr ()),
      ecs_updateService =
        (\<lambda>h c. Inr \<lparr>service = Some \<lparr>service_serviceArn = Some ''arn:aws:ecs:svc'',
                                       service_taskDefinition = Some ''task:3''\<rparr>\<rparr>),
      codepipeline_putJobSuccessResult = (\<lambda>h c. Inr ()),
      codepipeline_putJobFailureResult = (\<lambda>h c. Inr ())\<rparr>"

text \<open>The same world with one operation rejecting.\<close>

definition world_success_report_fails :: world where
  "world_success_report_fails =
     world_ok\<lparr>codepipeline_putJobSuccessResult := (\<lambda>h c. Inl (Error ''pipeline unreachable''))\<rparr>"

definition world_configuration_fails :: world where
  "world_configuration_fails =
     world_ok\<lparr>lambda_updateFunctionConfiguration := (\<lambda>h c. Inl (Error ''throttled''))\<rparr>"

definition world_write_fails :: world where
  "world_write_fails = world_ok\<lparr>s3_putObject := (\<lambda>h c. Inl (Error ''access denied''))\<rparr>"


text \<open>The same world with a code update that answers an empty \<^verbatim>\<open>Version\<close>.\<close>

definition world_empty_version :: world where
  "world_empty_version =
     world_ok\<lparr>lambda_updateFunctionCode :=
       (\<lambda>h c. Inr \<lparr>FunctionArn = Some ''arn:aws:lambda:fn'', Version = Some [],
                    LastModified = Some ''2023-11-14''\<rparr>)\<rparr>"

text \<open>The same world with a clock that advances with every call.\<close>

definition world_ticking :: world where
  "world_ticking = world_ok\<lparr>dateNow := (\<lambda>h. 1700000000000 + length h)\<rparr>"

definition input_artifact :: "string \<Rightarrow> artifact" where
  "input_artifact n =
     \<lparr>name = n, s3Location = \<lparr>bucketName = ''artifact-bucket'', objectKey = ''build/app.zip''\<rparr>\<rparr>"

definition summary_artifact :: artifact where
  "summary_artifact =
     \<lparr>name = ''DeployOutput'',
      s3Location = \<lparr>bucketName = ''artifact-bucket'', objectKey = ''deploy/summary.json''\<rparr>\<rparr>"

text \<open>
  A job with one input artifact of the given name, the given output artifacts and the
  given action configuration.
\<close>

definition example_job :: "string \<Rightarrow> string \<Rightarrow> artifact list \<Rightarrow> (string \<rightharpoonup> string) \<Rightarrow> job" where
  "example_job jid n outs conf =
     \<lparr>job_id = jid,
      job_data =
        \<lparr>inputArtifacts = [input_artifact n],
         outputArtifacts = Some outs,
         actionConfiguration = Some \<lparr>configuration = Some conf\<rparr>\<rparr>\<rparr>"

definition job_event :: "string \<Rightarrow> string \<Rightarrow> artifact list \<Rightarrow> (string \<rightharpoonup> string) \<Rightarrow> event" where
  "job_event jid n outs conf = \<lparr>CodePipeline_job = Some (example_job jid n outs conf)\<rparr>"

text \<open>A job without action configuration, for the environment layer alone.\<close>

definition plain_job_data :: job_data where
  "plain_job_data =
     \<lparr>inputArtifacts = [input_artifact ''BuildArtifact''], outputArtifacts = None,
      actionConfiguration = None\<rparr>"

section \<open>Lemmas about the embedding\<close>

subsection \<open>Decimal digits\<close>

lemma digit_char_inj: "a < 10 \<Longrightarrow> b < 10 \<Longrightarrow> digit_char a = digit_char b \<Longrightarrow> a = b"
proof -
  assume a: "a < 10" and b: "b < 10" and eq: "digit_char a = digit_char b"
  have A: "a \<in> {0,1,2,3,4,5,6,7,8,9}" using a by auto
  have B: "b \<in> {0,1,2,3,4,5,6,7,8,9}" using b by auto
  from A B eq show ?thesis
    by (auto simp: digit_char_def)
qed

lemma number_toString_nonempty: "number_toString n \<noteq> []"
  by (subst number_toString.simps) simp

lemma number_toString_inj: "number_toString a = number_toString b \<Longrightarrow> a = b"
proof (induction a arbitrary: b rule: number_toString.induct)
  case (1 n)
  show ?case
  proof (cases "n < 10")
    case small: True
    show ?thesis
    proof (cases "b < 10")
      case True
      with small "1.prems" show ?thesis
        by (simp add: number_toString.simps [of n] number_toString.simps [of b] digit_char_inj)
    next
      case False
      with small "1.prems" number_toString_nonempty [of "b div 10"] show ?thesis
        by (simp add: number_toString.simps [of n] number_toString.simps [of b])
    qed
  next
    case big: False
    show ?thesis
    proof (cases "b < 10")
      case True
      with big "1.prems" number_toString_nonempty [of "n div 10"] show ?thesis
        by (simp add: number_toString.simps [of n] number_toString.simps [of b])
    next
      case False
      with big "1.prems" have eq: "number_toString (n div 10) = number_toString (b div 10)"
        and d: "digit_char (n mod 10) = digit_char (b mod 10)"
        by (simp_all add: number_toString.simps [of n] number_toString.simps [of b])
      from "1.IH" [OF big eq] have "n div 10 = b div 10" .
      moreover from d have "n mod 10 = b mod 10"
        by (intro digit_char_inj) simp_all
      ultimately show ?thesis
        by (metis div_mult_mod_eq)
    qed
  qed
qed

lemma s3_key_inj: "s3_key a = s3_key b \<longleftrightarrow> a = b"
  by (auto simp: s3_key_def dest: number_toString_inj)

subsection \<open>Sequencing\<close>

lemma bind_io_Inl: "m h = (Inl e, evs) \<Longrightarrow> bind_io m f h = (Inl e, evs)"
  by (simp add: bind_io_def)

lemma bind_io_Inr:
  "m h = (Inr x, evs) \<Longrightarrow> bind_io m f h = (fst (f x (h @ evs)), evs @ snd (f x (h @ evs)))"
  by (simp add: bind_io_def split: prod.splits)

lemma try_catch_Inr: "m h = (Inr x, evs) \<Longrightarrow> try_catch m c h = (Inr x, evs)"
  by (simp add: try_catch_def)

lemma try_catch_Inl:
  "m h = (Inl e, evs) \<Longrightarrow> try_catch m c h = (fst (c e (h @ evs)), evs @ snd (c e (h @ evs)))"
  by (simp add: try_catch_def split: prod.splits)

subsection \<open>Projections of a trace\<close>

lemma reports_simps [simp]:
  "reports [] = []"
  "reports (evs @ evs') = reports evs @ reports evs'"
  "reports (ev # evs) = (if is_report (fst ev) then ev # reports evs else reports evs)"
  by (simp_all add: reports_def)

lemma putObjects_simps [simp]:
  "putObjects [] = []"
  "putObjects (evs @ evs') = putObjects evs @ putObjects evs'"
  "putObjects (ev # evs) = (if is_putObject (fst ev) then ev # putObjects evs else putObjects evs)"
  by (simp_all add: putObjects_def)

lemma getObjects_simps [simp]:
  "getObjects [] = []"
  "getObjects (evs @ evs') = getObjects evs @ getObjects evs'"
  "getObjects (ev # evs) = (if is_getObject (fst ev) then ev # getObjects evs else getObjects evs)"
  by (simp_all add: getObjects_def)

lemma upload_keys_simps [simp]:
  "upload_keys [] = []"
  "upload_keys (evs @ evs') = upload_keys evs @ upload_keys evs'"
  "upload_keys (ev # evs) = upload_key ev @ upload_keys evs"
  by (simp_all add: upload_keys_def)

subsection \<open>The run of processArtifacts\<close>

lemma dom_own_assign_artifact:
  "dom (own (assign_artifact acc n p)) =
     (if n = ''__proto__'' then dom (own acc) else insert n (dom (own acc)))"
  by (simp add: assign_artifact_def)

lemma processArtifacts_loop_Cons_Inl:
  assumes "s3_getObject w h (fetch a) = Inl e"
  shows "processArtifacts_loop w (a # rest) acc h = (Inl e, [(fetch a, False)])"
  using assms by (simp add: bind_io_def await_def fetch_def)

lemma processArtifacts_loop_Cons_Inr:
  assumes "s3_getObject w h (fetch a) = Inr d"
    and "processArtifacts_loop w rest
           (assign_artifact acc (name a)
              \<lparr>data = Body d, metadata = Metadata d, contentType = ContentType d\<rparr>)
           (h @ [(fetch a, True)]) = (r', evs')"
  shows "processArtifacts_loop w (a # rest) acc h = (r', (fetch a, True) # evs')"
  using assms by (simp add: bind_io_def await_def fetch_def)


lemma processArtifacts_loop_run:
  "processArtifacts_loop w refs acc h = (r, evs) \<Longrightarrow>
     (case r of
        Inr m \<Rightarrow>
          evs = map (\<lambda>a. (fetch a, True)) refs \<and>
          dom (own m) = dom (own acc) \<union> (name ` set refs - {''__proto__''})
      | Inl e \<Rightarrow>
          (\<exists>pre a post. refs = pre @ a # post \<and>
             evs = map (\<lambda>a. (fetch a, True)) pre @ [(fetch a, False)] \<and>
             s3_getObject w (h @ map (\<lambda>a. (fetch a, True)) pre) (fetch a) = Inl e))"
proof (induction refs arbitrary: acc h r evs)
  case Nil
  then show ?case by (auto simp: return_io_def)
next
  case (Cons a rest)
  show ?case
  proof (cases "s3_getObject w h (fetch a)")
    case (Inl e)
    from processArtifacts_loop_Cons_Inl [OF Inl, of rest acc] Cons.prems
    have "r = Inl e" "evs = [(fetch a, False)]"
      by simp_all
    with Inl show ?thesis
      by (auto intro!: exI [of _ "[]"])
  next
    case (Inr d)
    let ?acc = "assign_artifact acc (name a)
       \<lparr>data = Body d, metadata = Metadata d, contentType = ContentType d\<rparr>"
    obtain r' evs' where run: "processArtifacts_loop w rest ?acc (h @ [(fetch a, True)]) = (r', evs')"
      by (cases "processArtifacts_loop w rest ?acc (h @ [(fetch a, True)])")
    with processArtifacts_loop_Cons_Inr [OF Inr run] Cons.prems
    have r: "r = r'" and evs: "evs = (fetch a, True) # evs'"
      by simp_all
    show ?thesis
    proof (cases r')
      case (Inl e)
      with Cons.IH [OF run] obtain pre b post where
        "rest = pre @ b # post" "evs' = map (\<lambda>a. (fetch a, True)) pre @ [(fetch b, False)]"
        "s3_getObject w ((h @ [(fetch a, True)]) @ map (\<lambda>a. (fetch a, True)) pre) (fetch b) = Inl e"
        by auto
      then have "\<exists>pre' b' post'. a # rest = pre' @ b' # post' \<and>
         evs = map (\<lambda>a. (fetch a, True)) pre' @ [(fetch b', False)] \<and>
         s3_getObject w (h @ map (\<lambda>a. (fetch a, True)) pre') (fetch b') = Inl e"
        by (intro exI [of _ "a # pre"] exI [of _ b] exI [of _ post]) (simp add: evs)
      then show ?thesis unfolding r Inl by simp
    next
      case (Inr m)
      with Cons.IH [OF run] r evs show ?thesis
        by (auto simp: dom_own_assign_artifact split: if_splits)
    qed
  qed
qed




subsection \<open>The run of the handler\<close>

text \<open>
  With a job in the event, a run of the handler ends in one of five ways: a fetch is
  rejected, the dispatch throws, a summary write is rejected, the success report resolves,
  or the success report is rejected. \<open>handler_run\<close> gives the calls of each.
\<close>

lemmas io_defs = bind_io_def try_catch_def await_def throw_io_def return_io_def date_now_def

lemma handler_ok:
  "handler_try w env event h = (Inr x, evs) \<Longrightarrow> handler w env event h = (Inr x, evs)"
  by (simp add: handler_def try_catch_Inr)

lemma handler_catch:
  assumes "CodePipeline_job event = Some j" and "handler_try w env event h = (Inl e, evs)"
  shows "\<exists>ef okf. handler w env event h =
           (Inl ef, evs @ [(PutJobFailureResult (job_id j) (message e), okf)])"
  using assms
  by (cases "codepipeline_putJobFailureResult w (h @ evs)
        (PutJobFailureResult (job_id j) (message e))")
     (auto simp: handler_def io_defs Let_def)

lemma output_stage_eq:
  "(case outputArtifacts jobData of
      None \<Rightarrow> return_io ()
    | Some outs \<Rightarrow> if length outs > 0 then updateOutputArtifacts w outs result else return_io ())
   = updateOutputArtifacts w (declared jobData) result"
  by (cases "outputArtifacts jobData") (auto simp: declared_def)

lemma handler_try_Some:
  "CodePipeline_job event = Some j \<Longrightarrow>
   handler_try w env event =
     bind_io (processArtifacts w (inputArtifacts (job_data j)))
       (\<lambda>artifacts.
          bind_io (executeDeployment w (getDeploymentConfig env (job_data j)) artifacts)
            (\<lambda>result.
               bind_io (updateOutputArtifacts w (declared (job_data j)) result)
                 (\<lambda>_. bind_io (date_now w)
                    (\<lambda>t. bind_io
                       (await (codepipeline_putJobSuccessResult w)
                          (PutJobSuccessResult (job_id j)
                             \<lparr>deploymentStatus = ''SUCCESS'', deploymentTime = t,
                              deployedVersion = js_or (version result) ''unknown''\<rparr>))
                       (\<lambda>_. return_io
                          \<lparr>statusCode = 200,
                           body_message = ''Deployment orchestrated successfully'',
                           body_jobId = job_id j, body_result = result\<rparr>)))))"
  by (simp add: handler_try_def Let_def output_stage_eq)

lemma handler_run:
  assumes j: "CodePipeline_job event = Some j"
  obtains
    (fetch_failed) e e1 okf ef where
      "processArtifacts w (inputArtifacts (job_data j)) h = (Inl e, e1)"
      "handler w env event h =
         (Inl ef, e1 @ [(PutJobFailureResult (job_id j) (message e), okf)])"
  | (dispatch_failed) arts e1 e e2 okf ef where
      "processArtifacts w (inputArtifacts (job_data j)) h = (Inr arts, e1)"
      "executeDeployment w (getDeploymentConfig env (job_data j)) arts (h @ e1) = (Inl e, e2)"
      "handler w env event h =
         (Inl ef, e1 @ e2 @ [(PutJobFailureResult (job_id j) (message e), okf)])"
  | (write_failed) arts e1 res e2 e e3 okf ef where
      "processArtifacts w (inputArtifacts (job_data j)) h = (Inr arts, e1)"
      "executeDeployment w (getDeploymentConfig env (job_data j)) arts (h @ e1) = (Inr res, e2)"
      "updateOutputArtifacts w (declared (job_data j)) res (h @ e1 @ e2) = (Inl e, e3)"
      "handler w env event h =
         (Inl ef, e1 @ e2 @ e3 @ [(PutJobFailureResult (job_id j) (message e), okf)])"
  | (reported) arts e1 res e2 e3 t where
      "processArtifacts w (inputArtifacts (job_data j)) h = (Inr arts, e1)"
      "executeDeployment w (getDeploymentConfig env (job_data j)) arts (h @ e1) = (Inr res, e2)"
      "updateOutputArtifacts w (declared (job_data j)) res (h @ e1 @ e2) = (Inr (), e3)"
      "handler w env event h =
         (Inr \<lparr>statusCode = 200, body_message = ''Deployment orchestrated successfully'',
               body_jobId = job_id j, body_result = res\<rparr>,
          e1 @ e2 @ e3 @
          [(DateNow, True),
           (PutJobSuccessResult (job_id j)
              \<lparr>deploymentStatus = ''SUCCESS'', deploymentTime = t,
               deployedVersion = js_or (version res) ''unknown''\<rparr>, True)])"
  | (report_failed) arts e1 res e2 e3 t e okf ef where
      "processArtifacts w (inputArtifacts (job_data j)) h = (Inr arts, e1)"
      "executeDeployment w (getDeploymentConfig env (job_data j)) arts (h @ e1) = (Inr res, e2)"
      "updateOutputArtifacts w (declared (job_data j)) res (h @ e1 @ e2) = (Inr (), e3)"
      "handler w env event h =
         (Inl ef,
          e1 @ e2 @ e3 @
          [(DateNow, True),
           (PutJobSuccessResult (job_id j)
              \<lparr>deploymentStatus = ''SUCCESS'', deploymentTime = t,
               deployedVersion = js_or (version res) ''unknown''\<rparr>, False),
           (PutJobFailureResult (job_id j) (message e), okf)])"
proof -
  note unfold = handler_try_Some [OF j]
  obtain r1 e1 where p1: "processArtifacts w (inputArtifacts (job_data j)) h = (r1, e1)"
    by (cases "processArtifacts w (inputArtifacts (job_data j)) h")
  show thesis
  proof (cases r1)
    case (Inl e)
    with p1 have "handler_try w env event h = (Inl e, e1)"
      by (simp add: unfold bind_io_Inl)
    from handler_catch [OF j this] fetch_failed p1 Inl show thesis by blast
  next
    case arts: (Inr arts)
    obtain r2 e2 where p2:
      "executeDeployment w (getDeploymentConfig env (job_data j)) arts (h @ e1) = (r2, e2)"
      by (cases "executeDeployment w (getDeploymentConfig env (job_data j)) arts (h @ e1)")
    show thesis
    proof (cases r2)
      case (Inl e)
      with p1 arts p2 have "handler_try w env event h = (Inl e, e1 @ e2)"
        by (simp add: unfold bind_io_def)
      from handler_catch [OF j this] dispatch_failed p1 arts p2 Inl show thesis
        by (metis append.assoc)
    next
      case res: (Inr res)
      obtain r3 e3 where p3:
        "updateOutputArtifacts w (declared (job_data j)) res (h @ e1 @ e2) = (r3, e3)"
        by (cases "updateOutputArtifacts w (declared (job_data j)) res (h @ e1 @ e2)")
      show thesis
      proof (cases r3)
        case (Inl e)
        with p1 arts p2 res p3 have "handler_try w env event h = (Inl e, e1 @ e2 @ e3)"
          by (simp add: unfold bind_io_def)
        from handler_catch [OF j this] write_failed p1 arts p2 res p3 Inl show thesis
          by (metis append.assoc)
      next
        case u: (Inr u)
        define t where "t = dateNow w (h @ e1 @ e2 @ e3)"
        define c where "c = PutJobSuccessResult (job_id j)
              \<lparr>deploymentStatus = ''SUCCESS'', deploymentTime = t,
               deployedVersion = js_or (version res) ''unknown''\<rparr>"
        show thesis
        proof (cases "codepipeline_putJobSuccessResult w (h @ e1 @ e2 @ e3 @ [(DateNow, True)]) c")
          case (Inl e)
          with p1 arts p2 res p3 u have
            "handler_try w env event h = (Inl e, e1 @ e2 @ e3 @ [(DateNow, True), (c, False)])"
            by (simp add: unfold io_defs t_def c_def)
          from handler_catch [OF j this] obtain ef okf where
            "handler w env event h =
              (Inl ef, e1 @ e2 @ e3 @
                 [(DateNow, True), (c, False), (PutJobFailureResult (job_id j) (message e), okf)])"
            by auto
          with report_failed [OF p1 [unfolded arts] p2 [unfolded res], of e3 ef t e okf] p3 u
          show thesis by (simp add: c_def)
        next
          case (Inr v)
          with p1 arts p2 res p3 u have
            "handler_try w env event h =
               (Inr \<lparr>statusCode = 200, body_message = ''Deployment orchestrated successfully'',
                     body_jobId = job_id j, body_result = res\<rparr>,
                e1 @ e2 @ e3 @ [(DateNow, True), (c, True)])"
            by (simp add: unfold io_defs t_def c_def)
          from handler_ok [OF this] reported [OF p1 [unfolded arts] p2 [unfolded res], of e3 t] p3 u
          show thesis by (simp add: c_def)
        qed
      qed
    qed
  qed
qed

subsection \<open>Kinds of calls\<close>

lemma fetch_kinds [simp]:
  "\<not> is_report (fetch a)" "\<not> is_putObject (fetch a)" "is_getObject (fetch a)"
  "upload_key (fetch a, b) = []"
  by (simp_all add: fetch_def)

lemma summary_write_kinds [simp]:
  "\<not> is_report (summary_write res a t)" "is_putObject (summary_write res a t)"
  "\<not> is_getObject (summary_write res a t)" "upload_key (summary_write res a t, b) = []"
  by (simp_all add: summary_write_def)

lemma fetches_projections [simp]:
  "reports (map (\<lambda>a. (fetch a, b)) refs) = []"
  "putObjects (map (\<lambda>a. (fetch a, b)) refs) = []"
  "upload_keys (map (\<lambda>a. (fetch a, b)) refs) = []"
  "getObjects (map (\<lambda>a. (fetch a, b)) refs) = map (\<lambda>a. (fetch a, b)) refs"
  by (induction refs) (simp_all add: fetch_def)

lemma processArtifacts_run:
  "processArtifacts w refs h = (r, evs) \<Longrightarrow>
     (case r of
        Inr m \<Rightarrow>
          evs = map (\<lambda>a. (fetch a, True)) refs \<and>
          dom (own m) = name ` set refs - {''__proto__''}
      | Inl e \<Rightarrow>
          (\<exists>pre a post. refs = pre @ a # post \<and>
             evs = map (\<lambda>a. (fetch a, True)) pre @ [(fetch a, False)] \<and>
             s3_getObject w (h @ map (\<lambda>a. (fetch a, True)) pre) (fetch a) = Inl e))"
  using processArtifacts_loop_run [of w refs "\<lparr>own = Map.empty, prototype = None\<rparr>" h r evs]
  by (cases r) (simp_all add: processArtifacts_def)

lemma processArtifacts_projections:
  assumes "processArtifacts w refs h = (r, evs)"
  shows "reports evs = []" and "putObjects evs = []" and "upload_keys evs = []"
proof -
  from processArtifacts_run [OF assms]
  have "\<exists>refs' tl. evs = map (\<lambda>a. (fetch a, True)) refs' @ tl \<and>
          (tl = [] \<or> (\<exists>a. tl = [(fetch a, False)]))"
    by (cases r) auto
  then obtain refs' tl where evs: "evs = map (\<lambda>a. (fetch a, True)) refs' @ tl"
    and tl: "tl = [] \<or> (\<exists>a. tl = [(fetch a, False)])"
    by blast
  from tl show "reports evs = []" and "putObjects evs = []" and "upload_keys evs = []"
    unfolding evs by auto
qed

subsection \<open>Calls a computation never makes\<close>

lemma silent_return: "filter (\<lambda>ev. K (fst ev)) (snd (return_io x h)) = []"
  by (simp add: return_io_def)

lemma silent_throw: "filter (\<lambda>ev. K (fst ev)) (snd (throw_io e h)) = []"
  by (simp add: throw_io_def)

lemma silent_await: "\<not> K c \<Longrightarrow> filter (\<lambda>ev. K (fst ev)) (snd (await api c h)) = []"
  by (simp add: await_def Let_def)

lemma silent_date_now: "\<not> K DateNow \<Longrightarrow> filter (\<lambda>ev. K (fst ev)) (snd (date_now w h)) = []"
  by (simp add: date_now_def)

lemma silent_bind:
  assumes "\<And>h. filter (\<lambda>ev. K (fst ev)) (snd (m h)) = []"
    and "\<And>x h. filter (\<lambda>ev. K (fst ev)) (snd (f x h)) = []"
  shows "filter (\<lambda>ev. K (fst ev)) (snd (bind_io m f h)) = []"
proof (cases "m h")
  case (Pair r evs)
  with assms(1) [of h] have evs: "filter (\<lambda>ev. K (fst ev)) evs = []" by simp
  show ?thesis
  proof (cases r)
    case (Inl e)
    with Pair evs show ?thesis by (simp add: bind_io_Inl)
  next
    case (Inr x)
    with Pair evs assms(2) [of x "h @ evs"] show ?thesis by (simp add: bind_io_Inr)
  qed
qed

lemma silent_try_catch:
  assumes "\<And>h. filter (\<lambda>ev. K (fst ev)) (snd (m h)) = []"
    and "\<And>e h. filter (\<lambda>ev. K (fst ev)) (snd (c e h)) = []"
  shows "filter (\<lambda>ev. K (fst ev)) (snd (try_catch m c h)) = []"
proof (cases "m h")
  case (Pair r evs)
  with assms(1) [of h] have evs: "filter (\<lambda>ev. K (fst ev)) evs = []" by simp
  show ?thesis
  proof (cases r)
    case (Inl e)
    with Pair evs assms(2) [of e "h @ evs"] show ?thesis by (simp add: try_catch_Inl)
  next
    case (Inr x)
    with Pair evs show ?thesis by (simp add: try_catch_Inr)
  qed
qed

lemmas silent = silent_return silent_throw silent_await silent_date_now silent_bind
  silent_try_catch

lemma deployToLambda_silent:
  assumes "\<And>f d. \<not> K (UpdateFunctionCode f d)" "\<And>s f. \<not> K (WaitFor s f)"
    "\<And>f e t. \<not> K (UpdateFunctionConfiguration f e t)" "\<not> K DateNow"
  shows "filter (\<lambda>ev. K (fst ev)) (snd (deployToLambda w config arts h)) = []"
  by (simp add: deployToLambda_def silent assms split: option.splits)

lemma deployToECS_silent:
  assumes "\<And>c s f. \<not> K (UpdateService c s f)"
  shows "filter (\<lambda>ev. K (fst ev)) (snd (deployToECS w config arts h)) = []"
  by (simp add: deployToECS_def silent assms split: option.splits)

lemma deployToS3_silent:
  assumes "\<And>b k d c. \<not> K (Upload b k d c)" "\<not> K DateNow"
  shows "filter (\<lambda>ev. K (fst ev)) (snd (deployToS3 w config arts h)) = []"
  by (simp add: deployToS3_def silent assms split: option.splits)

lemma executeDeployment_silent:
  assumes "\<And>f d. \<not> K (UpdateFunctionCode f d)" "\<And>s f. \<not> K (WaitFor s f)"
    "\<And>f e t. \<not> K (UpdateFunctionConfiguration f e t)" "\<not> K DateNow"
    "\<And>c s f. \<not> K (UpdateService c s f)" "\<And>b k d c. \<not> K (Upload b k d c)"
  shows "filter (\<lambda>ev. K (fst ev)) (snd (executeDeployment w config arts h)) = []"
  by (simp add: executeDeployment_def deployToLambda_silent deployToECS_silent
      deployToS3_silent silent_throw assms)

lemma executeDeployment_projections:
  assumes "executeDeployment w config arts h = (r, evs)"
  shows "reports evs = []" and "putObjects evs = []" and "getObjects evs = []"
  using executeDeployment_silent [of is_report w config arts h]
    executeDeployment_silent [of is_putObject w config arts h]
    executeDeployment_silent [of is_getObject w config arts h] assms
  by (simp_all add: reports_def putObjects_def getObjects_def)

subsection \<open>The run of updateOutputArtifacts\<close>

lemma updateOutputArtifacts_projections:
  "updateOutputArtifacts w outs res h = (r, evs) \<Longrightarrow>
     reports evs = [] \<and> getObjects evs = [] \<and> upload_keys evs = []"
proof (induction outs arbitrary: h r evs)
  case Nil
  then show ?case by (simp add: return_io_def)
next
  case (Cons a rest)
  let ?c = "summary_write res a (dateNow w h)"
  show ?case
  proof (cases "s3_putObject w (h @ [(DateNow, True)]) ?c")
    case (Inl e)
    with Cons.prems show ?thesis
      by (auto simp: io_defs Let_def summary_write_def)
  next
    case (Inr u)
    obtain r' evs' where run:
      "updateOutputArtifacts w rest res (h @ [(DateNow, True), (?c, True)]) = (r', evs')"
      by (cases "updateOutputArtifacts w rest res (h @ [(DateNow, True), (?c, True)])")
    with Inr Cons.prems have "evs = [(DateNow, True), (?c, True)] @ evs'"
      by (auto simp: io_defs Let_def summary_write_def)
    with Cons.IH [OF run] show ?thesis by (simp add: summary_write_def)
  qed
qed


subsection \<open>Rejections are not swallowed\<close>

lemma propagates_return: "propagates (return_io x) h"
  by (simp add: propagates_def return_io_def)

lemma propagates_throw: "propagates (throw_io e) h"
  by (simp add: propagates_def throw_io_def)

lemma propagates_await: "propagates (await api c) h"
  by (simp add: propagates_def await_def Let_def)

lemma propagates_date_now: "propagates (date_now w) h"
  by (simp add: propagates_def date_now_def)

lemma propagates_bind:
  assumes "\<And>h. propagates m h" and "\<And>x h. propagates (f x) h"
  shows "propagates (bind_io m f) h"
proof (cases "m h")
  case (Pair r evs)
  show ?thesis
  proof (cases r)
    case (Inl e)
    with Pair show ?thesis by (simp add: propagates_def bind_io_Inl)
  next
    case (Inr x)
    with Pair assms(1) [of h] assms(2) [of x "h @ evs"] show ?thesis
      by (simp add: propagates_def bind_io_Inr)
  qed
qed

lemma propagates_try_catch:
  assumes "\<And>h. propagates m h" and "\<And>e h. isl (fst (c e h))"
  shows "propagates (try_catch m c) h"
proof (cases "m h")
  case (Pair r evs)
  show ?thesis
  proof (cases r)
    case (Inl e)
    with Pair assms(2) [of e "h @ evs"] show ?thesis
      by (simp add: propagates_def try_catch_Inl)
  next
    case (Inr x)
    with Pair assms(1) [of h] show ?thesis by (simp add: propagates_def try_catch_Inr)
  qed
qed

lemma isl_throw: "isl (fst (throw_io e h))"
  by (simp add: throw_io_def)

lemmas propagates_rules = propagates_return propagates_throw propagates_await
  propagates_date_now propagates_bind propagates_try_catch isl_throw

lemma executeDeployment_propagates: "propagates (executeDeployment w config arts) h"
  by (simp add: executeDeployment_def deployToLambda_def deployToECS_def deployToS3_def
      propagates_rules split: option.splits)

lemma executeDeployment_resolved:
  "executeDeployment w config arts h = (Inr res, evs) \<Longrightarrow> list_all snd evs"
  using executeDeployment_propagates [of w config arts h] by (simp add: propagates_def)



lemma updateOutputArtifacts_silent:
  assumes "\<not> K DateNow" and "\<And>b k s. \<not> K (PutObject b k s)"
  shows "filter (\<lambda>ev. K (fst ev)) (snd (updateOutputArtifacts w outs res h)) = []"
  by (induction outs arbitrary: h) (simp_all add: silent assms)

lemma processArtifacts_silent:
  assumes "\<And>b k. \<not> K (GetObject b k)"
  shows "filter (\<lambda>ev. K (fst ev)) (snd (processArtifacts w refs h)) = []"
proof -
  have "filter (\<lambda>ev. K (fst ev)) (snd (processArtifacts_loop w refs acc h)) = []" for acc
    by (induction refs arbitrary: acc h) (simp_all add: silent assms)
  then show ?thesis by (simp add: processArtifacts_def)
qed

lemma not_in_silent:
  "filter (\<lambda>ev. K (fst ev)) evs = [] \<Longrightarrow> K c \<Longrightarrow> (c, ok) \<notin> set evs"
  by (auto simp: filter_empty_conv)

lemma not_in_resolved: "list_all snd evs \<Longrightarrow> (c, False) \<notin> set evs"
  by (auto simp: list_all_iff)

subsection \<open>A missing application artifact\<close>

lemma appArtifact_None:
  "own arts ''BuildArtifact'' = None \<Longrightarrow> own arts ''SourceOutput'' = None \<Longrightarrow>
   appArtifact arts = None"
  by (simp add: appArtifact_def)

lemma deployToLambda_missing:
  "appArtifact arts = None \<Longrightarrow>
   deployToLambda w config arts h =
     (Inl (Error ''No application artifact found for Lambda deployment''), [])"
  by (simp add: deployToLambda_def throw_io_def)

lemma deployToS3_missing:
  "appArtifact arts = None \<Longrightarrow>
   deployToS3 w config arts h =
     (Inl (Error ''S3 deployment failed: No application artifact found for S3 deployment''), [])"
  by (simp add: deployToS3_def throw_io_def try_catch_def)

subsection \<open>The key of an upload\<close>

lemma deployToS3_upload_keys:
  "appArtifact arts = Some app \<Longrightarrow>
   upload_keys (snd (deployToS3 w config arts h)) = [s3_key (dateNow w h)]"
  by (cases "s3_upload w (h @ [(DateNow, True)])
        (Upload (config ''bucketName'') (s3_key (dateNow w h)) (data app) ''application/zip'')")
     (simp_all add: deployToS3_def io_defs Let_def)

subsection \<open>Results without a version\<close>

lemma deployToECS_version:
  "deployToECS w config arts h = (Inr res, evs) \<Longrightarrow> version res = None"
  by (cases "ecs_updateService w h
        (UpdateService (js_or (config ''clusterName'') ''default'') (config ''serviceName'') True)")
     (auto simp: deployToECS_def io_defs Let_def split: option.splits)

lemma deployToS3_version:
  "deployToS3 w config arts h = (Inr res, evs) \<Longrightarrow> version res = None"
  by (cases "appArtifact arts";
      cases "s3_upload w (h @ [(DateNow, True)])
        (Upload (config ''bucketName'') (s3_key (dateNow w h)) (data (the (appArtifact arts)))
           ''application/zip'')")
     (auto simp: deployToS3_def io_defs Let_def)

subsection \<open>A rejected configuration update\<close>

lemma deployToLambda_configuration_fails:
  assumes "appArtifact arts = Some app"
    and "config ''environment'' \<noteq> Some ''production''"
    and "lambda_updateFunctionCode w h
           (UpdateFunctionCode (config ''targetFunction'') (data app)) = Inr u"
    and "lambda_waitFor w
           (h @ [(UpdateFunctionCode (config ''targetFunction'') (data app), True)])
           (WaitFor ''functionUpdated'' (config ''targetFunction'')) = Inr ()"
    and "lambda_updateFunctionConfiguration w
           (h @ [(UpdateFunctionCode (config ''targetFunction'') (data app), True),
                 (WaitFor ''functionUpdated'' (config ''targetFunction''), True),
                 (DateNow, True)])
           (UpdateFunctionConfiguration (config ''targetFunction'') (config ''environment'')
              (dateNow w
                 (h @ [(UpdateFunctionCode (config ''targetFunction'') (data app), True),
                       (WaitFor ''functionUpdated'' (config ''targetFunction''), True)]))) =
         Inl e"
  shows "deployToLambda w config arts h =
     (Inl (Error (''Lambda deployment failed: '' @ message e)),
      [(UpdateFunctionCode (config ''targetFunction'') (data app), True),
       (WaitFor ''functionUpdated'' (config ''targetFunction''), True),
       (DateNow, True),
       (UpdateFunctionConfiguration (config ''targetFunction'') (config ''environment'')
          (dateNow w
             (h @ [(UpdateFunctionCode (config ''targetFunction'') (data app), True),
                   (WaitFor ''functionUpdated'' (config ''targetFunction''), True)])), False)])"
  using assms by (simp add: deployToLambda_def io_defs Let_def)

subsection \<open>Calls that a trace cannot contain\<close>

lemma not_in_reports: "reports evs = [] \<Longrightarrow> is_report c \<Longrightarrow> (c, ok) \<notin> set evs"
  unfolding reports_def by (rule not_in_silent)


subsection \<open>Dispatch without an application artifact, and without a version\<close>

lemma executeDeployment_missing:
  assumes "own arts ''BuildArtifact'' = None" and "own arts ''SourceOutput'' = None"
    and "config ''deploymentType'' = Some ''lambda'' \<or> config ''deploymentType'' = Some ''s3''"
  shows "executeDeployment w config arts h =
     (Inl (Error (if config ''deploymentType'' = Some ''lambda''
                  then ''No application artifact found for Lambda deployment''
                  else ''S3 deployment failed: No application artifact found for S3 deployment'')),
      [])"
  using assms
  by (auto simp: executeDeployment_def deployToLambda_missing deployToS3_missing appArtifact_None)

lemma executeDeployment_version:
  assumes "executeDeployment w config arts h = (Inr res, evs)"
    and "config ''deploymentType'' = Some ''ecs'' \<or> config ''deploymentType'' = Some ''s3''"
  shows "version res = None"
  using assms
  by (auto simp: executeDeployment_def dest: deployToECS_version deployToS3_version)

section \<open>Evaluating the handler on the example worlds\<close>

lemmas run_defs = handler_def handler_try_def try_catch_def bind_io_def
  return_io_def throw_io_def await_def date_now_def getDeploymentConfig_def processArtifacts_def
  executeDeployment_def deployToS3_def deployToLambda_def deployToECS_def appArtifact_def
  js_or_def s3_key_def number_toString.simps digit_char_def Let_def template_def
  world_ok_def job_event_def example_job_def input_artifact_def summary_artifact_def
  assign_artifact_def object_assign_def

section \<open>The resolved configuration as an overlay\<close>

lemma getDeploymentConfig_overlay:
  "getDeploymentConfig env jobData =
     overlay default_layer (nonempty (environment_layer env))
       ((action_layer jobData)(''__proto__'' := None))"
proof -
  have base: "[''deploymentType'' \<mapsto> js_or (env ''DEPLOYMENT_TYPE'') ''lambda'',
         ''targetFunction'' \<mapsto> js_or (env ''TARGET_FUNCTION_NAME'') ''lambdadeploy-app'',
         ''environment'' \<mapsto> js_or (env ''ENVIRONMENT'') ''development'',
         ''region'' \<mapsto> js_or (env ''AWS_REGION'') ''us-east-1'']
       = default_layer ++ nonempty (environment_layer env)"
    by (rule ext)
      (simp add: default_layer_def nonempty_def environment_layer_def js_or_def map_add_def
        split: option.splits)
  show ?thesis
    by (simp add: getDeploymentConfig_def base overlay_def action_layer_def object_assign_def
        split: option.splits)
qed

section \<open>The claims\<close>

subsection \<open>C1: the report calls of the handler\<close>

text \<open>
  C1, as amended. For every event that carries a job, the handler makes at least one and at
  most two report calls, at most one of each kind, all for the job's id: either one
  success report that resolves, and the handler returns; or one failure report and no
  success report, and the handler throws; or one success report that is rejected, followed
  by one failure report, and the handler throws. So exactly one report call is made unless
  the success report call itself is rejected.
\<close>

theorem handler_report_calls:
  assumes "CodePipeline_job event = Some j"
  shows "\<exists>vars msg ok.
     reports (snd (handler w env event h)) = [(PutJobSuccessResult (job_id j) vars, True)] \<and>
       \<not> isl (fst (handler w env event h))
   \<or> reports (snd (handler w env event h)) = [(PutJobFailureResult (job_id j) msg, ok)] \<and>
       isl (fst (handler w env event h))
   \<or> reports (snd (handler w env event h)) =
         [(PutJobSuccessResult (job_id j) vars, False), (PutJobFailureResult (job_id j) msg, ok)] \<and>
       isl (fst (handler w env event h))"
  using assms
proof (cases rule: handler_run [where w = w and h = h and env = env])
  case (fetch_failed e e1 okf ef)
  with processArtifacts_projections(1) [OF fetch_failed(1)] show ?thesis by simp
next
  case (dispatch_failed arts e1 e e2 okf ef)
  with processArtifacts_projections(1) [OF dispatch_failed(1)]
    executeDeployment_projections(1) [OF dispatch_failed(2)]
  show ?thesis by simp
next
  case (write_failed arts e1 res e2 e e3 okf ef)
  with processArtifacts_projections(1) [OF write_failed(1)]
    executeDeployment_projections(1) [OF write_failed(2)]
    updateOutputArtifacts_projections [OF write_failed(3)]
  show ?thesis by simp
next
  case (reported arts e1 res e2 e3 t)
  with processArtifacts_projections(1) [OF reported(1)]
    executeDeployment_projections(1) [OF reported(2)]
    updateOutputArtifacts_projections [OF reported(3)]
  show ?thesis by simp
next
  case (report_failed arts e1 res e2 e3 t e okf ef)
  with processArtifacts_projections(1) [OF report_failed(1)]
    executeDeployment_projections(1) [OF report_failed(2)]
    updateOutputArtifacts_projections [OF report_failed(3)]
  show ?thesis by simp
qed

text \<open>
  The theorem at a job that succeeds and at a job whose summary write is rejected: one
  report call each.
\<close>

theorem handler_report_calls_witness:
  "reports (snd (handler world_ok Map.empty
      (job_event ''job-1'' ''BuildArtifact'' [summary_artifact] Map.empty) [])) =
     [(PutJobSuccessResult ''job-1''
         \<lparr>deploymentStatus = ''SUCCESS'', deploymentTime = 1700000000000,
          deployedVersion = ''7''\<rparr>, True)] \<and>
   reports (snd (handler world_write_fails Map.empty
      (job_event ''job-1'' ''BuildArtifact'' [summary_artifact] Map.empty) [])) =
     [(PutJobFailureResult ''job-1'' ''access denied'', True)]"
  using handler_report_calls
    [of "job_event ''job-1'' ''BuildArtifact'' [summary_artifact] Map.empty"
        "example_job ''job-1'' ''BuildArtifact'' [summary_artifact] Map.empty"
        world_ok Map.empty "[]"]
  by (simp add: run_defs world_write_fails_def)

text \<open>
  C1 as stated fails where the success report call itself is rejected: the rejection is
  caught by the handler's \<^verbatim>\<open>catch\<close>, which makes the failure report as well. Both report
  calls are made for the one job.
\<close>

theorem success_report_failure_reports_twice:
  "reports (snd (handler world_success_report_fails Map.empty
      (job_event ''job-1'' ''BuildArtifact'' [] Map.empty) [])) =
     [(PutJobSuccessResult ''job-1''
         \<lparr>deploymentStatus = ''SUCCESS'', deploymentTime = 1700000000000,
          deployedVersion = ''7''\<rparr>, False),
      (PutJobFailureResult ''job-1'' ''pipeline unreachable'', True)]"
  by (simp add: run_defs world_success_report_fails_def)

subsection \<open>C2: a rejected configuration update\<close>

text \<open>
  C2, as amended. In \<^verbatim>\<open>deployToLambda\<close> the update of the environment variables is
  awaited inside the same \<^verbatim>\<open>try\<close> block as the code update. When the environment is not
  \<open>production\<close>, the code update and the wait resolve and the configuration update is
  rejected with an error \<open>e\<close>, the backend throws \<open>Lambda deployment failed:\<close> followed
  by the message of \<open>e\<close>, and no result. And whenever a configuration update is rejected
  in a run of the handler, the job is reported as failed: one failure report, no success
  report, and the handler throws.
\<close>

theorem configuration_failure_fails_job:
  "(appArtifact arts = Some app \<and> config ''environment'' \<noteq> Some ''production'' \<and>
    lambda_updateFunctionCode w h
      (UpdateFunctionCode (config ''targetFunction'') (data app)) = Inr u \<and>
    lambda_waitFor w
      (h @ [(UpdateFunctionCode (config ''targetFunction'') (data app), True)])
      (WaitFor ''functionUpdated'' (config ''targetFunction'')) = Inr () \<and>
    lambda_updateFunctionConfiguration w
      (h @ [(UpdateFunctionCode (config ''targetFunction'') (data app), True),
            (WaitFor ''functionUpdated'' (config ''targetFunction''), True),
            (DateNow, True)])
      (UpdateFunctionConfiguration (config ''targetFunction'') (config ''environment'')
         (dateNow w
            (h @ [(UpdateFunctionCode (config ''targetFunction'') (data app), True),
                  (WaitFor ''functionUpdated'' (config ''targetFunction''), True)]))) =
      Inl e
    \<longrightarrow> fst (deployToLambda w config arts h) =
          Inl (Error (''Lambda deployment failed: '' @ message e)))
   \<and> (CodePipeline_job event = Some j \<and>
      (UpdateFunctionConfiguration f en t, False) \<in> set (snd (handler w env event h'))
      \<longrightarrow> (\<exists>msg ok. reports (snd (handler w env event h')) =
                      [(PutJobFailureResult (job_id j) msg, ok)]) \<and>
          isl (fst (handler w env event h')))"
proof (intro conjI impI)
  assume "appArtifact arts = Some app \<and> config ''environment'' \<noteq> Some ''production'' \<and>
    lambda_updateFunctionCode w h
      (UpdateFunctionCode (config ''targetFunction'') (data app)) = Inr u \<and>
    lambda_waitFor w
      (h @ [(UpdateFunctionCode (config ''targetFunction'') (data app), True)])
      (WaitFor ''functionUpdated'' (config ''targetFunction'')) = Inr () \<and>
    lambda_updateFunctionConfiguration w
      (h @ [(UpdateFunctionCode (config ''targetFunction'') (data app), True),
            (WaitFor ''functionUpdated'' (config ''targetFunction''), True),
            (DateNow, True)])
      (UpdateFunctionConfiguration (config ''targetFunction'') (config ''environment'')
         (dateNow w
            (h @ [(UpdateFunctionCode (config ''targetFunction'') (data app), True),
                  (WaitFor ''functionUpdated'' (config ''targetFunction''), True)]))) =
      Inl e"
  then show "fst (deployToLambda w config arts h) =
          Inl (Error (''Lambda deployment failed: '' @ message e))"
    by (simp add: deployToLambda_configuration_fails)
next
  assume a: "CodePipeline_job event = Some j \<and>
      (UpdateFunctionConfiguration f en t, False) \<in> set (snd (handler w env event h'))"
  let ?c = "UpdateFunctionConfiguration f en t"
  have k: "is_configurationUpdate ?c" by simp
  have no1: "(?c, False) \<notin> set e1"
    if "processArtifacts w (inputArtifacts (job_data j)) h' = (r, e1)" for r e1
    using processArtifacts_silent [of is_configurationUpdate w "inputArtifacts (job_data j)" h']
      that not_in_silent [of is_configurationUpdate e1 ?c False] k
    by simp
  have no2: "(?c, False) \<notin> set e2"
    if "executeDeployment w config' arts' h'' = (Inr res, e2)" for config' arts' h'' res e2
    using executeDeployment_resolved [OF that] by (rule not_in_resolved)
  have no3: "(?c, False) \<notin> set e3"
    if "updateOutputArtifacts w outs res h'' = (r, e3)" for outs res h'' r e3
    using updateOutputArtifacts_silent [of is_configurationUpdate w outs res h''] that
      not_in_silent [of is_configurationUpdate e3 ?c False] k
    by simp
  from a have j: "CodePipeline_job event = Some j"
    and c: "(?c, False) \<in> set (snd (handler w env event h'))" by simp_all
  from j have "(\<exists>msg ok. reports (snd (handler w env event h')) =
                      [(PutJobFailureResult (job_id j) msg, ok)]) \<and>
          isl (fst (handler w env event h'))"
  proof (cases rule: handler_run [where w = w and h = h' and env = env])
    case (fetch_failed e e1 okf ef)
    with processArtifacts_projections(1) [OF fetch_failed(1)] show ?thesis by simp
  next
    case (dispatch_failed arts e1 e e2 okf ef)
    with processArtifacts_projections(1) [OF dispatch_failed(1)]
      executeDeployment_projections(1) [OF dispatch_failed(2)]
    show ?thesis by simp
  next
    case (write_failed arts e1 res e2 e e3 okf ef)
    with processArtifacts_projections(1) [OF write_failed(1)]
      executeDeployment_projections(1) [OF write_failed(2)]
      updateOutputArtifacts_projections [OF write_failed(3)]
    show ?thesis by simp
  next
    case (reported arts e1 res e2 e3 t)
    with c no1 [OF reported(1)] no2 [OF reported(2)] no3 [OF reported(3)]
    show ?thesis by simp
  next
    case (report_failed arts e1 res e2 e3 t e okf ef)
    with c no1 [OF report_failed(1)] no2 [OF report_failed(2)] no3 [OF report_failed(3)]
    show ?thesis by simp
  qed
  then show "\<exists>msg ok. reports (snd (handler w env event h')) =
                      [(PutJobFailureResult (job_id j) msg, ok)]"
    and "isl (fst (handler w env event h'))" by simp_all
qed

text \<open>
  The theorem in the world whose configuration update is throttled, for a job with the
  default environment \<open>development\<close>.
\<close>

theorem configuration_failure_fails_job_witness:
  "fst (deployToLambda world_configuration_fails
          (getDeploymentConfig Map.empty
             (job_data (example_job ''job-1'' ''BuildArtifact'' [] Map.empty)))
          \<lparr>own = [''BuildArtifact'' \<mapsto>
              \<lparr>data = ''zip-bytes'', metadata = [], contentType = None\<rparr>],
            prototype = None\<rparr> []) =
     Inl (Error ''Lambda deployment failed: throttled'') \<and>
   reports (snd (handler world_configuration_fails Map.empty
      (job_event ''job-1'' ''BuildArtifact'' [] Map.empty) [])) =
     [(PutJobFailureResult ''job-1'' ''Lambda deployment failed: throttled'', True)]"
  using configuration_failure_fails_job
    [of "\<lparr>own = [''BuildArtifact'' \<mapsto>
              \<lparr>data = ''zip-bytes'', metadata = [], contentType = None\<rparr>],
            prototype = None\<rparr>"
        "\<lparr>data = ''zip-bytes'', metadata = [], contentType = None\<rparr>"
        "getDeploymentConfig Map.empty
             (job_data (example_job ''job-1'' ''BuildArtifact'' [] Map.empty))"
        world_configuration_fails "[]"
        "\<lparr>FunctionArn = Some ''arn:aws:lambda:fn'', Version = Some ''7'',
          LastModified = Some ''2023-11-14''\<rparr>"
        "Error ''throttled''"
        "job_event ''job-1'' ''BuildArtifact'' [] Map.empty"
        "example_job ''job-1'' ''BuildArtifact'' [] Map.empty"
        "Some ''lambdadeploy-app''" "Some ''development''" 1700000000000 Map.empty "[]"]
  by (simp add: run_defs world_configuration_fails_def)

text \<open>
  C2 as stated fails in that world: the code update and the wait resolve, the
  configuration update is rejected, and the handler reports the job as failed and throws;
  no result of the code update is returned.
\<close>

theorem configuration_failure_not_best_effort:
  "handler world_configuration_fails Map.empty
     (job_event ''job-1'' ''BuildArtifact'' [] Map.empty) [] =
     (Inl (Error ''Lambda deployment failed: throttled''),
      [(GetObject ''artifact-bucket'' ''build/app.zip'', True),
       (UpdateFunctionCode (Some ''lambdadeploy-app'') ''zip-bytes'', True),
       (WaitFor ''functionUpdated'' (Some ''lambdadeploy-app''), True),
       (DateNow, True),
       (UpdateFunctionConfiguration (Some ''lambdadeploy-app'') (Some ''development'')
          1700000000000, False),
       (PutJobFailureResult ''job-1'' ''Lambda deployment failed: throttled'', True)])"
  by (simp add: run_defs world_configuration_fails_def)

subsection \<open>C3: an unsupported deployment type\<close>

text \<open>
  C3, as amended. \<^verbatim>\<open>getDeploymentConfig\<close> validates nothing and never fails. For a job
  whose resolved deployment type is none of \<open>lambda\<close>, \<open>ecs\<close>, \<open>s3\<close>, the handler first
  runs \<^verbatim>\<open>processArtifacts\<close> on the input artifacts; then it makes exactly one more call,
  the failure report: with the message \<open>Unsupported deployment type:\<close> and the type when
  every fetch resolved (one fetch per input artifact), and with the message of the fetch
  error otherwise.
\<close>

theorem unsupported_type_fails_after_fetch:
  assumes "CodePipeline_job event = Some j"
    and "getDeploymentConfig env (job_data j) ''deploymentType'' = Some ty"
    and "ty \<noteq> ''lambda''" and "ty \<noteq> ''ecs''" and "ty \<noteq> ''s3''"
    and "processArtifacts w (inputArtifacts (job_data j)) h = (r1, e1)"
  shows "(\<exists>ef ok. handler w env event h =
            (Inl ef,
             e1 @ [(PutJobFailureResult (job_id j)
                      (case r1 of
                         Inl e \<Rightarrow> message e
                       | Inr arts \<Rightarrow> ''Unsupported deployment type: '' @ ty), ok)]))
         \<and> (isl r1 \<or> e1 = map (\<lambda>a. (fetch a, True)) (inputArtifacts (job_data j)))"
proof -
  have exec: "executeDeployment w (getDeploymentConfig env (job_data j)) arts h' =
      (Inl (Error (''Unsupported deployment type: '' @ ty)), [])" for arts h'
    using assms(2-5) by (simp add: executeDeployment_def throw_io_def template_def)
  have fetches: "isl r1 \<or> e1 = map (\<lambda>a. (fetch a, True)) (inputArtifacts (job_data j))"
    using processArtifacts_run [OF assms(6)] by (cases r1) simp_all
  from assms(1) have "\<exists>ef ok. handler w env event h =
            (Inl ef,
             e1 @ [(PutJobFailureResult (job_id j)
                      (case r1 of
                         Inl e \<Rightarrow> message e
                       | Inr arts \<Rightarrow> ''Unsupported deployment type: '' @ ty), ok)])"
  proof (cases rule: handler_run [where w = w and h = h and env = env])
    case (fetch_failed e e1' okf ef)
    with assms(6) show ?thesis by auto
  next
    case (dispatch_failed arts e1' e e2 okf ef)
    with assms(6) exec [of arts "h @ e1'"] show ?thesis by auto
  next
    case (write_failed arts e1' res e2 e e3 okf ef)
    with exec [of arts "h @ e1'"] show ?thesis by simp
  next
    case (reported arts e1' res e2 e3 t)
    with exec [of arts "h @ e1'"] show ?thesis by simp
  next
    case (report_failed arts e1' res e2 e3 t e okf ef)
    with exec [of arts "h @ e1'"] show ?thesis by simp
  qed
  with fetches show ?thesis by simp
qed

text \<open>
  The theorem at a job of type \<open>carrier-pigeon\<close> with one input artifact.
\<close>

theorem unsupported_type_fails_after_fetch_witness:
  "handler world_ok Map.empty
     (job_event ''job-1'' ''BuildArtifact'' [] [''deploymentType'' \<mapsto> ''carrier-pigeon'']) [] =
     (Inl (Error ''Unsupported deployment type: carrier-pigeon''),
      [(GetObject ''artifact-bucket'' ''build/app.zip'', True),
       (PutJobFailureResult ''job-1'' ''Unsupported deployment type: carrier-pigeon'', True)])"
  using unsupported_type_fails_after_fetch
    [of "job_event ''job-1'' ''BuildArtifact'' [] [''deploymentType'' \<mapsto> ''carrier-pigeon'']"
        "example_job ''job-1'' ''BuildArtifact'' [] [''deploymentType'' \<mapsto> ''carrier-pigeon'']"
        Map.empty "''carrier-pigeon''" world_ok "[]"
        "fst (processArtifacts world_ok [input_artifact ''BuildArtifact''] [])"
        "snd (processArtifacts world_ok [input_artifact ''BuildArtifact''] [])"]
  by (simp add: run_defs)

text \<open>
  C3 as stated fails at that job: the artifact is fetched before the type is looked at, so
  one fetch is observed, not none.
\<close>

theorem unsupported_type_fetches_first:
  "getObjects (snd (handler world_ok Map.empty
      (job_event ''job-1'' ''BuildArtifact'' [] [''deploymentType'' \<mapsto> ''carrier-pigeon''])
      [])) =
     [(GetObject ''artifact-bucket'' ''build/app.zip'', True)]"
  by (simp add: run_defs)

subsection \<open>C4: the keys of the static-artifact backend\<close>

text \<open>
  C4, as amended. A dispatch to \<^verbatim>\<open>deployToS3\<close> that finds its application artifact makes
  one upload, under the key \<open>deployments/\<close>, the reading of \<^verbatim>\<open>Date.now()\<close> in decimal,
  \<open>/app.zip\<close>. The keys of two dispatches are distinct exactly when the two readings of
  the clock differ; the job plays no part in the key.
\<close>

theorem deployToS3_keys_follow_clock:
  assumes "appArtifact arts1 = Some app1" and "appArtifact arts2 = Some app2"
  shows "upload_keys (snd (deployToS3 w config1 arts1 h1)) = [s3_key (dateNow w h1)] \<and>
         upload_keys (snd (deployToS3 w config2 arts2 h2)) = [s3_key (dateNow w h2)] \<and>
         (s3_key (dateNow w h1) = s3_key (dateNow w h2)) = (dateNow w h1 = dateNow w h2)"
  using assms by (simp add: deployToS3_upload_keys s3_key_inj)

text \<open>
  The theorem at two dispatches, one after the other, in the world whose clock advances.
\<close>

theorem deployToS3_keys_follow_clock_witness:
  "upload_keys (snd (deployToS3 world_ticking Map.empty
      \<lparr>own = [''BuildArtifact'' \<mapsto>
              \<lparr>data = ''zip-bytes'', metadata = [], contentType = None\<rparr>],
            prototype = None\<rparr> [])) =
     [''deployments/1700000000000/app.zip''] \<and>
   upload_keys (snd (deployToS3 world_ticking Map.empty
      \<lparr>own = [''SourceOutput'' \<mapsto>
              \<lparr>data = ''src-bytes'', metadata = [], contentType = None\<rparr>],
            prototype = None\<rparr>
      (snd (deployToS3 world_ticking Map.empty
         \<lparr>own = [''BuildArtifact'' \<mapsto>
              \<lparr>data = ''zip-bytes'', metadata = [], contentType = None\<rparr>],
            prototype = None\<rparr>
         [])))) =
     [''deployments/1700000000002/app.zip'']"
  using deployToS3_keys_follow_clock
    [of "\<lparr>own = [''BuildArtifact'' \<mapsto>
              \<lparr>data = ''zip-bytes'', metadata = [], contentType = None\<rparr>],
            prototype = None\<rparr>"
        "\<lparr>data = ''zip-bytes'', metadata = [], contentType = None\<rparr>"
        "\<lparr>own = [''SourceOutput'' \<mapsto>
              \<lparr>data = ''src-bytes'', metadata = [], contentType = None\<rparr>],
            prototype = None\<rparr>"
        "\<lparr>data = ''src-bytes'', metadata = [], contentType = None\<rparr>"
        world_ticking Map.empty "[]" Map.empty
        "snd (deployToS3 world_ticking Map.empty
         \<lparr>own = [''BuildArtifact'' \<mapsto>
              \<lparr>data = ''zip-bytes'', metadata = [], contentType = None\<rparr>],
            prototype = None\<rparr>
         [])"]
  by (simp add: run_defs world_ticking_def)

text \<open>
  C4 as stated fails for two distinct jobs handled one after the other within the same
  millisecond: both upload under the same key, and the second upload overwrites the
  first.
\<close>

theorem same_millisecond_same_key:
  "upload_keys (snd (handler world_ok Map.empty
      (job_event ''job-1'' ''BuildArtifact'' [] [''deploymentType'' \<mapsto> ''s3'']) [])) =
     [''deployments/1700000000000/app.zip''] \<and>
   upload_keys (snd (handler world_ok Map.empty
      (job_event ''job-2'' ''SourceOutput'' [] [''deploymentType'' \<mapsto> ''s3''])
      (snd (handler world_ok Map.empty
         (job_event ''job-1'' ''BuildArtifact'' [] [''deploymentType'' \<mapsto> ''s3'']) [])))) =
     [''deployments/1700000000000/app.zip'']"
  by (simp add: run_defs)

subsection \<open>C5: the three configuration layers\<close>

text \<open>
  C5, as amended. The resolved configuration is the overlay of the defaults, the
  environment layer and the action configuration, where an environment variable set to the
  empty string counts as not set: for every key other than \<open>__proto__\<close> the value of the
  highest layer that defines it wins, and every key of the action configuration other than
  \<open>__proto__\<close>, known to the resolver or not, is in the result with its value. (The
  first conjunct is the resolved configuration in full: \<^verbatim>\<open>Object.assign\<close> leaves a key
  \<open>__proto__\<close> of the action configuration out.)
\<close>

theorem getDeploymentConfig_layers:
  "getDeploymentConfig env jobData =
     overlay default_layer (nonempty (environment_layer env))
       ((action_layer jobData)(''__proto__'' := None))
   \<and> (k \<noteq> ''__proto__'' \<longrightarrow>
        getDeploymentConfig env jobData k =
          (case action_layer jobData k of
             Some v \<Rightarrow> Some v
           | None \<Rightarrow>
               (case nonempty (environment_layer env) k of
                  Some v \<Rightarrow> Some v
                | None \<Rightarrow> default_layer k)))
   \<and> (k \<noteq> ''__proto__'' \<and> action_layer jobData k = Some v \<longrightarrow>
        getDeploymentConfig env jobData k = Some v)"
proof -
  have 1: "getDeploymentConfig env jobData =
     overlay default_layer (nonempty (environment_layer env))
       ((action_layer jobData)(''__proto__'' := None))"
    by (rule getDeploymentConfig_overlay)
  have 2: "getDeploymentConfig env jobData k =
          (case action_layer jobData k of
             Some v \<Rightarrow> Some v
           | None \<Rightarrow>
               (case nonempty (environment_layer env) k of
                  Some v \<Rightarrow> Some v
                | None \<Rightarrow> default_layer k))" if "k \<noteq> ''__proto__''"
    unfolding 1 using that by (simp add: overlay_def map_add_def split: option.splits)
  from 1 2 show ?thesis by simp
qed

text \<open>
  The theorem where the environment says \<open>ecs\<close> and the action configuration says \<open>s3\<close>
  and carries the key \<open>bucketName\<close>, which the resolver does not know.
\<close>

theorem getDeploymentConfig_layers_witness:
  "getDeploymentConfig [''DEPLOYMENT_TYPE'' \<mapsto> ''ecs'']
     (job_data (example_job ''job-1'' ''BuildArtifact'' []
        [''deploymentType'' \<mapsto> ''s3'', ''bucketName'' \<mapsto> ''site-bucket'']))
     ''deploymentType'' = Some ''s3'' \<and>
   getDeploymentConfig [''DEPLOYMENT_TYPE'' \<mapsto> ''ecs'']
     (job_data (example_job ''job-1'' ''BuildArtifact'' []
        [''deploymentType'' \<mapsto> ''s3'', ''bucketName'' \<mapsto> ''site-bucket'']))
     ''bucketName'' = Some ''site-bucket'' \<and>
   getDeploymentConfig [''DEPLOYMENT_TYPE'' \<mapsto> ''ecs''] plain_job_data ''deploymentType'' =
     Some ''ecs''"
  using getDeploymentConfig_layers
    [of "[''DEPLOYMENT_TYPE'' \<mapsto> ''ecs'']"
        "job_data (example_job ''job-1'' ''BuildArtifact'' []
           [''deploymentType'' \<mapsto> ''s3'', ''bucketName'' \<mapsto> ''site-bucket''])"
        "''bucketName''" "''site-bucket''"]
  by (simp add: getDeploymentConfig_def js_or_def example_job_def plain_job_data_def
      overlay_def default_layer_def nonempty_def environment_layer_def action_layer_def
      object_assign_def)

text \<open>
  C5 as stated fails for an environment variable that is set to the empty string: the
  environment layer defines the key, and yet the default is the resolved value, because
  \<^verbatim>\<open>process.env.DEPLOYMENT_TYPE || 'lambda'\<close> takes the empty string for missing.
\<close>

theorem empty_environment_value_ignored:
  "environment_layer [''DEPLOYMENT_TYPE'' \<mapsto> ''''] ''deploymentType'' = Some '''' \<and>
   action_layer plain_job_data ''deploymentType'' = None \<and>
   overlay default_layer (environment_layer [''DEPLOYMENT_TYPE'' \<mapsto> ''''])
     (action_layer plain_job_data) ''deploymentType'' = Some '''' \<and>
   getDeploymentConfig [''DEPLOYMENT_TYPE'' \<mapsto> ''''] plain_job_data ''deploymentType'' =
     Some ''lambda''"
  by (simp add: environment_layer_def action_layer_def plain_job_data_def overlay_def
      default_layer_def getDeploymentConfig_def js_or_def)

subsection \<open>C6: no application artifact\<close>

text \<open>
  C6. With an artifact object that has neither \<open>BuildArtifact\<close> nor \<open>SourceOutput\<close>,
  \<^verbatim>\<open>deployToLambda\<close> and \<^verbatim>\<open>deployToS3\<close> throw the error \<open>No application artifact found\<close>
  (the S3 backend inside its own \<^verbatim>\<open>try\<close>, hence with the prefix \<open>S3 deployment failed:\<close>)
  without making a call. And for a job of type \<open>lambda\<close> or \<open>s3\<close> none of whose input
  artifacts has one of the two names, the handler makes exactly one failure report and no
  success report, and throws; when every fetch resolved, the report carries that error's
  message.
\<close>

theorem missing_artifact_fails_once:
  "(own arts ''BuildArtifact'' = None \<and> own arts ''SourceOutput'' = None \<longrightarrow>
      deployToLambda w config arts h =
        (Inl (Error ''No application artifact found for Lambda deployment''), []) \<and>
      deployToS3 w config arts h =
        (Inl (Error ''S3 deployment failed: No application artifact found for S3 deployment''),
         []))
   \<and> (CodePipeline_job event = Some j \<and>
      (getDeploymentConfig env (job_data j) ''deploymentType'' = Some ''lambda'' \<or>
       getDeploymentConfig env (job_data j) ''deploymentType'' = Some ''s3'') \<and>
      ''BuildArtifact'' \<notin> name ` set (inputArtifacts (job_data j)) \<and>
      ''SourceOutput'' \<notin> name ` set (inputArtifacts (job_data j))
      \<longrightarrow> (\<exists>msg ok.
             reports (snd (handler w env event h')) =
               [(PutJobFailureResult (job_id j) msg, ok)] \<and>
             (list_all snd (getObjects (snd (handler w env event h'))) \<longrightarrow>
                msg =
                  (if getDeploymentConfig env (job_data j) ''deploymentType'' = Some ''lambda''
                   then ''No application artifact found for Lambda deployment''
                   else ''S3 deployment failed: No application artifact found for S3 deployment'')))
          \<and> isl (fst (handler w env event h')))"
proof (intro conjI impI)
  assume "own arts ''BuildArtifact'' = None \<and> own arts ''SourceOutput'' = None"
  then have none: "appArtifact arts = None" by (simp add: appArtifact_None)
  from none show "deployToLambda w config arts h =
        (Inl (Error ''No application artifact found for Lambda deployment''), [])"
    by (rule deployToLambda_missing)
  from none show "deployToS3 w config arts h =
        (Inl (Error ''S3 deployment failed: No application artifact found for S3 deployment''),
         [])"
    by (rule deployToS3_missing)
next
  assume a: "CodePipeline_job event = Some j \<and>
      (getDeploymentConfig env (job_data j) ''deploymentType'' = Some ''lambda'' \<or>
       getDeploymentConfig env (job_data j) ''deploymentType'' = Some ''s3'') \<and>
      ''BuildArtifact'' \<notin> name ` set (inputArtifacts (job_data j)) \<and>
      ''SourceOutput'' \<notin> name ` set (inputArtifacts (job_data j))"
  let ?config = "getDeploymentConfig env (job_data j)"
  let ?msg = "if ?config ''deploymentType'' = Some ''lambda''
              then ''No application artifact found for Lambda deployment''
              else ''S3 deployment failed: No application artifact found for S3 deployment''"
  from a have j: "CodePipeline_job event = Some j" by simp
  have exec: "executeDeployment w ?config arts' h'' = (Inl (Error ?msg), [])"
    if "processArtifacts w (inputArtifacts (job_data j)) h' = (Inr arts', e1)" for arts' e1 h''
  proof -
    from processArtifacts_run [OF that]
    have "dom (own arts') = name ` set (inputArtifacts (job_data j)) - {''__proto__''}"
      by simp
    with a have "''BuildArtifact'' \<notin> dom (own arts')" "''SourceOutput'' \<notin> dom (own arts')"
      by simp_all
    then have "own arts' ''BuildArtifact'' = None" "own arts' ''SourceOutput'' = None"
      by (simp_all add: domIff)
    with a show ?thesis by (intro executeDeployment_missing) simp_all
  qed
  from j have "(\<exists>msg ok.
             reports (snd (handler w env event h')) =
               [(PutJobFailureResult (job_id j) msg, ok)] \<and>
             (list_all snd (getObjects (snd (handler w env event h'))) \<longrightarrow> msg = ?msg))
          \<and> isl (fst (handler w env event h'))"
  proof (cases rule: handler_run [where w = w and h = h' and env = env])
    case (fetch_failed e e1 okf ef)
    from processArtifacts_run [OF fetch_failed(1)] obtain pre a where
      "e1 = map (\<lambda>a. (fetch a, True)) pre @ [(fetch a, False)]" by auto
    then have "\<not> list_all snd (getObjects e1)" by simp
    with fetch_failed processArtifacts_projections(1) [OF fetch_failed(1)] show ?thesis
      by simp
  next
    case (dispatch_failed arts' e1 e e2 okf ef)
    with exec [OF dispatch_failed(1), of "h' @ e1"]
      processArtifacts_projections(1) [OF dispatch_failed(1)]
    show ?thesis by auto
  next
    case (write_failed arts' e1 res e2 e e3 okf ef)
    with exec [OF write_failed(1), of "h' @ e1"] show ?thesis by simp
  next
    case (reported arts' e1 res e2 e3 t)
    with exec [OF reported(1), of "h' @ e1"] show ?thesis by simp
  next
    case (report_failed arts' e1 res e2 e3 t e okf ef)
    with exec [OF report_failed(1), of "h' @ e1"] show ?thesis by simp
  qed
  then show "\<exists>msg ok.
             reports (snd (handler w env event h')) =
               [(PutJobFailureResult (job_id j) msg, ok)] \<and>
             (list_all snd (getObjects (snd (handler w env event h'))) \<longrightarrow> msg = ?msg)"
    and "isl (fst (handler w env event h'))" by simp_all
qed

text \<open>
  The theorem at two jobs whose only input artifact is named \<open>Docs\<close>, one for each of
  the two backends.
\<close>

theorem missing_artifact_fails_once_witness:
  "handler world_ok Map.empty (job_event ''job-1'' ''Docs'' [] Map.empty) [] =
     (Inl (Error ''No application artifact found for Lambda deployment''),
      [(GetObject ''artifact-bucket'' ''build/app.zip'', True),
       (PutJobFailureResult ''job-1'' ''No application artifact found for Lambda deployment'',
        True)]) \<and>
   handler world_ok Map.empty
     (job_event ''job-2'' ''Docs'' [] [''deploymentType'' \<mapsto> ''s3'']) [] =
     (Inl (Error ''S3 deployment failed: No application artifact found for S3 deployment''),
      [(GetObject ''artifact-bucket'' ''build/app.zip'', True),
       (PutJobFailureResult ''job-2''
          ''S3 deployment failed: No application artifact found for S3 deployment'', True)])"
  using missing_artifact_fails_once
    [of "\<lparr>own = Map.empty, prototype = None\<rparr>" world_ok Map.empty "[]"
        "job_event ''job-1'' ''Docs'' [] Map.empty"
        "example_job ''job-1'' ''Docs'' [] Map.empty" Map.empty "[]"]
  by (simp add: run_defs)

subsection \<open>C7: the summaries are written before success is reported\<close>



subsection \<open>C8: artifact resolution is all or nothing\<close>




subsection \<open>C9: an event without a job\<close>

text \<open>
  C9. When the event has no \<^verbatim>\<open>CodePipeline.job\<close> field, reading the job's id throws a
  \<^verbatim>\<open>TypeError\<close>; the handler's \<^verbatim>\<open>catch\<close> finds no job to report on, makes no call at
  all and rethrows the error to its caller.
\<close>

theorem handler_without_job:
  assumes "CodePipeline_job event = None"
  shows "handler w env event h =
           (Inl (TypeError ''Cannot read properties of undefined (reading 'id')''), [])"
  using assms by (simp add: handler_def handler_try_def io_defs)

text \<open>
  The theorem at the event without any field: no report call.
\<close>

theorem handler_without_job_witness:
  "handler world_ok Map.empty \<lparr>CodePipeline_job = None\<rparr> [] =
     (Inl (TypeError ''Cannot read properties of undefined (reading 'id')''), []) \<and>
   reports (snd (handler world_ok Map.empty \<lparr>CodePipeline_job = None\<rparr> [])) = []"
  using handler_without_job [of "\<lparr>CodePipeline_job = None\<rparr>" world_ok Map.empty "[]"]
  by simp

subsection \<open>C10: the reported output variables\<close>

text \<open>
  C10, as amended. Every success report of a run carries the job's id, the status
  \<open>SUCCESS\<close>, and as deployed version the \<^verbatim>\<open>version\<close> field of the result of the
  dispatch when the result has the field and it is not the empty string, and \<open>unknown\<close>
  otherwise. The results of the ECS and S3 backends have no such field, so jobs of these
  types report \<open>unknown\<close>.
\<close>

theorem reported_output_variables:
  assumes "CodePipeline_job event = Some j"
    and "(PutJobSuccessResult jid vars, ok) \<in> set (snd (handler w env event h))"
  shows "jid = job_id j \<and> deploymentStatus vars = ''SUCCESS'' \<and>
     (\<exists>arts e1 e2 res.
        processArtifacts w (inputArtifacts (job_data j)) h = (Inr arts, e1) \<and>
        executeDeployment w (getDeploymentConfig env (job_data j)) arts (h @ e1) =
          (Inr res, e2) \<and>
        deployedVersion vars =
          (case version res of
             None \<Rightarrow> ''unknown''
           | Some v \<Rightarrow> if v = [] then ''unknown'' else v) \<and>
        (\<forall>resp. fst (handler w env event h) = Inr resp \<longrightarrow> body_result resp = res)) \<and>
     (getDeploymentConfig env (job_data j) ''deploymentType'' = Some ''ecs'' \<or>
      getDeploymentConfig env (job_data j) ''deploymentType'' = Some ''s3''
      \<longrightarrow> deployedVersion vars = ''unknown'')"
  using assms(1)
proof (cases rule: handler_run [where w = w and h = h and env = env])
  case (fetch_failed e e1 okf ef)
  with assms(2) not_in_reports [OF processArtifacts_projections(1) [OF fetch_failed(1)],
      of "PutJobSuccessResult jid vars" ok]
  show ?thesis by simp
next
  case (dispatch_failed arts e1 e e2 okf ef)
  with assms(2)
    not_in_reports [OF processArtifacts_projections(1) [OF dispatch_failed(1)],
      of "PutJobSuccessResult jid vars" ok]
    not_in_reports [OF executeDeployment_projections(1) [OF dispatch_failed(2)],
      of "PutJobSuccessResult jid vars" ok]
  show ?thesis by simp
next
  case (write_failed arts e1 res e2 e e3 okf ef)
  from updateOutputArtifacts_projections [OF write_failed(3)] have r3: "reports e3 = []" by simp
  from write_failed assms(2)
    not_in_reports [OF processArtifacts_projections(1) [OF write_failed(1)],
      of "PutJobSuccessResult jid vars" ok]
    not_in_reports [OF executeDeployment_projections(1) [OF write_failed(2)],
      of "PutJobSuccessResult jid vars" ok]
    not_in_reports [OF r3, of "PutJobSuccessResult jid vars" ok]
  show ?thesis by simp
next
  case (reported arts e1 res e2 e3 t)
  from updateOutputArtifacts_projections [OF reported(3)] have r3: "reports e3 = []" by simp
  from reported(4) assms(2)
    not_in_reports [OF processArtifacts_projections(1) [OF reported(1)],
      of "PutJobSuccessResult jid vars" ok]
    not_in_reports [OF executeDeployment_projections(1) [OF reported(2)],
      of "PutJobSuccessResult jid vars" ok]
    not_in_reports [OF r3, of "PutJobSuccessResult jid vars" ok]
  have eq: "jid = job_id j"
    "vars = \<lparr>deploymentStatus = ''SUCCESS'', deploymentTime = t,
             deployedVersion = js_or (version res) ''unknown''\<rparr>"
    by simp_all
  have v: "deployedVersion vars =
          (case version res of
             None \<Rightarrow> ''unknown''
           | Some v \<Rightarrow> if v = [] then ''unknown'' else v)"
    by (simp add: eq js_or_def)
  have "processArtifacts w (inputArtifacts (job_data j)) h = (Inr arts, e1) \<and>
        executeDeployment w (getDeploymentConfig env (job_data j)) arts (h @ e1) =
          (Inr res, e2) \<and>
        deployedVersion vars =
          (case version res of
             None \<Rightarrow> ''unknown''
           | Some v \<Rightarrow> if v = [] then ''unknown'' else v) \<and>
        (\<forall>resp. fst (handler w env event h) = Inr resp \<longrightarrow> body_result resp = res)"
    using reported(1,2,4) v by auto
  then have ex: "\<exists>arts e1 e2 res.
        processArtifacts w (inputArtifacts (job_data j)) h = (Inr arts, e1) \<and>
        executeDeployment w (getDeploymentConfig env (job_data j)) arts (h @ e1) =
          (Inr res, e2) \<and>
        deployedVersion vars =
          (case version res of
             None \<Rightarrow> ''unknown''
           | Some v \<Rightarrow> if v = [] then ''unknown'' else v) \<and>
        (\<forall>resp. fst (handler w env event h) = Inr resp \<longrightarrow> body_result resp = res)"
    by blast
  have "deployedVersion vars = ''unknown''"
    if "getDeploymentConfig env (job_data j) ''deploymentType'' = Some ''ecs'' \<or>
        getDeploymentConfig env (job_data j) ''deploymentType'' = Some ''s3''"
    using executeDeployment_version [OF reported(2) that] v by simp
  with ex eq show ?thesis by simp
next
  case (report_failed arts e1 res e2 e3 t e okf ef)
  from updateOutputArtifacts_projections [OF report_failed(3)] have r3: "reports e3 = []" by simp
  from report_failed(4) assms(2)
    not_in_reports [OF processArtifacts_projections(1) [OF report_failed(1)],
      of "PutJobSuccessResult jid vars" ok]
    not_in_reports [OF executeDeployment_projections(1) [OF report_failed(2)],
      of "PutJobSuccessResult jid vars" ok]
    not_in_reports [OF r3, of "PutJobSuccessResult jid vars" ok]
  have eq: "jid = job_id j"
    "vars = \<lparr>deploymentStatus = ''SUCCESS'', deploymentTime = t,
             deployedVersion = js_or (version res) ''unknown''\<rparr>"
    by simp_all
  have v: "deployedVersion vars =
          (case version res of
             None \<Rightarrow> ''unknown''
           | Some v \<Rightarrow> if v = [] then ''unknown'' else v)"
    by (simp add: eq js_or_def)
  have "processArtifacts w (inputArtifacts (job_data j)) h = (Inr arts, e1) \<and>
        executeDeployment w (getDeploymentConfig env (job_data j)) arts (h @ e1) =
          (Inr res, e2) \<and>
        deployedVersion vars =
          (case version res of
             None \<Rightarrow> ''unknown''
           | Some v \<Rightarrow> if v = [] then ''unknown'' else v) \<and>
        (\<forall>resp. fst (handler w env event h) = Inr resp \<longrightarrow> body_result resp = res)"
    using report_failed(1,2,4) v by auto
  then have ex: "\<exists>arts e1 e2 res.
        processArtifacts w (inputArtifacts (job_data j)) h = (Inr arts, e1) \<and>
        executeDeployment w (getDeploymentConfig env (job_data j)) arts (h @ e1) =
          (Inr res, e2) \<and>
        deployedVersion vars =
          (case version res of
             None \<Rightarrow> ''unknown''
           | Some v \<Rightarrow> if v = [] then ''unknown'' else v) \<and>
        (\<forall>resp. fst (handler w env event h) = Inr resp \<longrightarrow> body_result resp = res)"
    by blast
  have "deployedVersion vars = ''unknown''"
    if "getDeploymentConfig env (job_data j) ''deploymentType'' = Some ''ecs'' \<or>
        getDeploymentConfig env (job_data j) ''deploymentType'' = Some ''s3''"
    using executeDeployment_version [OF report_failed(2) that] v by simp
  with ex eq show ?thesis by simp
qed

text \<open>
  The theorem at a Lambda job whose code update answers version \<open>7\<close>.
\<close>

theorem reported_output_variables_witness:
  "reports (snd (handler world_ok Map.empty
      (job_event ''job-1'' ''BuildArtifact'' [] Map.empty) [])) =
     [(PutJobSuccessResult ''job-1''
         \<lparr>deploymentStatus = ''SUCCESS'', deploymentTime = 1700000000000,
          deployedVersion = ''7''\<rparr>, True)] \<and>
   fst (handler world_ok Map.empty (job_event ''job-1'' ''BuildArtifact'' [] Map.empty) []) =
     Inr \<lparr>statusCode = 200, body_message = ''Deployment orchestrated successfully'',
          body_jobId = ''job-1'',
          body_result = LambdaResult (Some ''arn:aws:lambda:fn'') (Some ''7'')
            (Some ''2023-11-14'')\<rparr>"
  using reported_output_variables
    [of "job_event ''job-1'' ''BuildArtifact'' [] Map.empty"
        "example_job ''job-1'' ''BuildArtifact'' [] Map.empty"
        "''job-1''"
        "\<lparr>deploymentStatus = ''SUCCESS'', deploymentTime = 1700000000000,
          deployedVersion = ''7''\<rparr>" True
        world_ok Map.empty "[]"]
  by (simp add: run_defs)

text \<open>
  C10 as stated fails when the code update answers an empty \<^verbatim>\<open>Version\<close>: the result has
  the field, with the empty string, and the reported version is \<open>unknown\<close>, because
  \<^verbatim>\<open>deploymentResult.version || 'unknown'\<close> takes the empty string for missing.
\<close>

theorem empty_version_reported_unknown:
  "handler world_empty_version Map.empty
     (job_event ''job-1'' ''BuildArtifact'' [] [''environment'' \<mapsto> ''production'']) [] =
     (Inr \<lparr>statusCode = 200, body_message = ''Deployment orchestrated successfully'',
           body_jobId = ''job-1'',
           body_result = LambdaResult (Some ''arn:aws:lambda:fn'') (Some '''')
             (Some ''2023-11-14'')\<rparr>,
      [(GetObject ''artifact-bucket'' ''build/app.zip'', True),
       (UpdateFunctionCode (Some ''lambdadeploy-app'') ''zip-bytes'', True),
       (WaitFor ''functionUpdated'' (Some ''lambdadeploy-app''), True),
       (DateNow, True),
       (PutJobSuccessResult ''job-1''
          \<lparr>deploymentStatus = ''SUCCESS'', deploymentTime = 1700000000000,
           deployedVersion = ''unknown''\<rparr>, True)])"
  by (simp add: run_defs world_empty_version_def)

end
